theory Spec2Isabelle
  imports Main "HOL-Library.Word" "HOL-Library.Sublist"
begin

section \<open>Go strings\<close>

text \<open>
  A Go string is a sequence of bytes; \<^typ>\<open>string\<close> (a list of 8-bit characters) is
  that sequence. Functions of the Go standard library that the controller calls are
  modelled here on bytes, with the UTF-8 encodings written out where the library
  decodes runes.
\<close>

definition asciiSpace :: "char \<Rightarrow> bool" where
  "asciiSpace c \<longleftrightarrow> c \<in> {CHR 0x09, CHR 0x0A, CHR 0x0B, CHR 0x0C, CHR 0x0D, CHR 0x20}"

text \<open>
  The UTF-8 encodings of the runes beyond ASCII for which \<open>unicode.IsSpace\<close> holds:
  U+0085, U+00A0 (two bytes) and U+1680, U+2000..U+200A, U+2028, U+2029, U+202F,
  U+205F, U+3000 (three bytes).
\<close>

definition wideSpaces :: "string list" where
  "wideSpaces =
    [[CHR 0xC2, CHR 0x85], [CHR 0xC2, CHR 0xA0], [CHR 0xE1, CHR 0x9A, CHR 0x80],
     [CHR 0xE2, CHR 0x80, CHR 0x80], [CHR 0xE2, CHR 0x80, CHR 0x81],
     [CHR 0xE2, CHR 0x80, CHR 0x82], [CHR 0xE2, CHR 0x80, CHR 0x83],
     [CHR 0xE2, CHR 0x80, CHR 0x84], [CHR 0xE2, CHR 0x80, CHR 0x85],
     [CHR 0xE2, CHR 0x80, CHR 0x86], [CHR 0xE2, CHR 0x80, CHR 0x87],
     [CHR 0xE2, CHR 0x80, CHR 0x88], [CHR 0xE2, CHR 0x80, CHR 0x89],
     [CHR 0xE2, CHR 0x80, CHR 0x8A], [CHR 0xE2, CHR 0x80, CHR 0xA8],
     [CHR 0xE2, CHR 0x80, CHR 0xA9], [CHR 0xE2, CHR 0x80, CHR 0xAF],
     [CHR 0xE2, CHR 0x81, CHR 0x9F], [CHR 0xE3, CHR 0x80, CHR 0x80]]"

text \<open>Number of bytes of the white-space rune a string starts with (0 when it starts with none).\<close>

definition spaceAtStart :: "string \<Rightarrow> nat" where
  "spaceAtStart s =
    (case s of [] \<Rightarrow> 0
     | c # _ \<Rightarrow>
        if asciiSpace c then 1
        else (case filter (\<lambda>e. prefix e s) wideSpaces of [] \<Rightarrow> 0 | e # _ \<Rightarrow> length e))"

text \<open>Number of bytes of the white-space rune a string ends with (0 when it ends with none).\<close>

definition spaceAtEnd :: "string \<Rightarrow> nat" where
  "spaceAtEnd s =
    (if s = [] then 0
     else if asciiSpace (last s) then 1
     else (case filter (\<lambda>e. suffix e s) wideSpaces of [] \<Rightarrow> 0 | e # _ \<Rightarrow> length e))"

function trimLeftSpace :: "string \<Rightarrow> string" where
  "trimLeftSpace s = (if spaceAtStart s = 0 then s else trimLeftSpace (drop (spaceAtStart s) s))"
  by pat_completeness auto
termination
  by (relation "measure length") (auto simp: spaceAtStart_def split: list.splits)

declare trimLeftSpace.simps [simp del]

function trimRightSpace :: "string \<Rightarrow> string" where
  "trimRightSpace s =
    (if spaceAtEnd s = 0 then s else trimRightSpace (take (length s - spaceAtEnd s) s))"
  by pat_completeness auto
termination
  by (relation "measure length") (auto simp: spaceAtEnd_def split: list.splits if_splits)

declare trimRightSpace.simps [simp del]

text \<open>\<open>strings.TrimSpace\<close>: all leading and trailing white space removed.\<close>

definition TrimSpace :: "string \<Rightarrow> string" where
  "TrimSpace s = trimRightSpace (trimLeftSpace s)"

text \<open>\<open>strings.Trim(s, cutset)\<close> for a cutset of one ASCII byte.\<close>

definition TrimByte :: "string \<Rightarrow> char \<Rightarrow> string" where
  "TrimByte s c = rev (dropWhile (\<lambda>x. x = c) (rev (dropWhile (\<lambda>x. x = c) s)))"

text \<open>\<open>strings.Join(elems, sep)\<close>.\<close>

fun JoinStr :: "string list \<Rightarrow> string \<Rightarrow> string" where
  "JoinStr [] sep = []"
| "JoinStr [e] sep = e"
| "JoinStr (e # es) sep = e @ sep @ JoinStr es sep"

text \<open>\<open>strings.Split(s, sep)\<close> for a separator of one byte.\<close>

fun SplitByte :: "string \<Rightarrow> char \<Rightarrow> string list" where
  "SplitByte [] sep = [[]]"
| "SplitByte (c # cs) sep =
    (if c = sep then [] # SplitByte cs sep
     else (case SplitByte cs sep of [] \<Rightarrow> [[c]] | e # es \<Rightarrow> (c # e) # es))"

text \<open>
  \<open>strings.ToLower\<close>. ASCII letters are lowered; the two runes beyond ASCII whose
  lower case is an ASCII letter are U+0130 (to \<open>i\<close>) and U+212A (to \<open>k\<close>). Every other
  rune beyond ASCII is mapped by Go to a rune beyond ASCII and is left as it is here:
  the controller only compares the result with ASCII words.
\<close>

definition lowerByte :: "char \<Rightarrow> char" where
  "lowerByte c =
    (if (65::nat) \<le> of_char c \<and> of_char c \<le> (90::nat) then char_of (of_char c + (32::nat)) else c)"

fun ToLower :: "string \<Rightarrow> string" where
  "ToLower (a # b # c # cs) =
    (if a = CHR 0xC4 \<and> b = CHR 0xB0 then CHR ''i'' # ToLower (c # cs)
     else if a = CHR 0xE2 \<and> b = CHR 0x84 \<and> c = CHR 0xAA then CHR ''k'' # ToLower cs
     else lowerByte a # ToLower (b # c # cs))"
| "ToLower [a, b] =
    (if a = CHR 0xC4 \<and> b = CHR 0xB0 then ''i'' else [lowerByte a, lowerByte b])"
| "ToLower [a] = [lowerByte a]"
| "ToLower [] = []"

text \<open>\<open>strings.EqualFold(s, "true")\<close>: the letters of \<open>true\<close> have no other case
  variants than their ASCII capitals.\<close>

definition EqualFoldTrue :: "string \<Rightarrow> bool" where
  "EqualFoldTrue s \<longleftrightarrow> map lowerByte s = ''true''"

text \<open>
  Width in bytes of the rune a string starts with, as \<open>range\<close> decodes it: a byte
  that does not start a well-formed UTF-8 sequence is a rune of width 1.
\<close>

definition byteIn :: "nat \<Rightarrow> nat \<Rightarrow> char \<Rightarrow> bool" where
  "byteIn lo hi c \<longleftrightarrow> lo \<le> of_char c \<and> of_char c \<le> hi"

fun runeLen :: "string \<Rightarrow> nat" where
  "runeLen [] = 0"
| "runeLen (b0 # rest) =
    (let x = (of_char b0 :: nat) in
     if x < 0x80 then 1
     else if 0xC2 \<le> x \<and> x \<le> 0xDF then
       (case rest of b1 # _ \<Rightarrow> if byteIn 0x80 0xBF b1 then 2 else 1 | _ \<Rightarrow> 1)
     else if 0xE0 \<le> x \<and> x \<le> 0xEF then
       (case rest of
          b1 # b2 # _ \<Rightarrow>
            if byteIn (if x = 0xE0 then 0xA0 else 0x80) (if x = 0xED then 0x9F else 0xBF) b1
               \<and> byteIn 0x80 0xBF b2
            then 3 else 1
        | _ \<Rightarrow> 1)
     else if 0xF0 \<le> x \<and> x \<le> 0xF4 then
       (case rest of
          b1 # b2 # b3 # _ \<Rightarrow>
            if byteIn (if x = 0xF0 then 0x90 else 0x80) (if x = 0xF4 then 0x8F else 0xBF) b1
               \<and> byteIn 0x80 0xBF b2 \<and> byteIn 0x80 0xBF b3
            then 4 else 1
        | _ \<Rightarrow> 1)
     else 1)"

text \<open>
  The white space of the regular expression \<open>\s\<close>: tab, newline, form feed,
  carriage return and space.
\<close>

definition reSpace :: "char \<Rightarrow> bool" where
  "reSpace c \<longleftrightarrow> c \<in> {CHR 0x09, CHR 0x0A, CHR 0x0C, CHR 0x0D, CHR 0x20}"

text \<open>
  \<open>regexp.MustCompile(`\s+`).Split(s, -1)\<close>: the pieces of \<open>s\<close> between maximal runs of
  white space; a piece is empty where \<open>s\<close> starts or ends with white space.
\<close>

function splitSpaces :: "string \<Rightarrow> string list" where
  "splitSpaces s =
    (case dropWhile (\<lambda>c. \<not> reSpace c) s of
       [] \<Rightarrow> [s]
     | _ # _ \<Rightarrow>
         takeWhile (\<lambda>c. \<not> reSpace c) s
           # splitSpaces (dropWhile reSpace (dropWhile (\<lambda>c. \<not> reSpace c) s)))"
  by pat_completeness auto
termination
proof (relation "measure length", goal_cases)
  case 1
  show ?case by simp
next
  case (2 s c cs)
  have "length (dropWhile reSpace cs) \<le> length cs"
    by (rule length_dropWhile_le)
  moreover have "reSpace c"
    using 2 hd_dropWhile[of "\<lambda>c. \<not> reSpace c" s] by auto
  moreover have "length (dropWhile (\<lambda>c. \<not> reSpace c) s) \<le> length s"
    by (rule length_dropWhile_le)
  ultimately show ?case using 2 by simp
qed

declare splitSpaces.simps [simp del]

text \<open>The fields of a string: its maximal runs of bytes that are not white space.\<close>

function fieldsOf :: "string \<Rightarrow> string list" where
  "fieldsOf s =
    (case dropWhile reSpace s of
       [] \<Rightarrow> []
     | c # cs \<Rightarrow>
         takeWhile (\<lambda>c. \<not> reSpace c) (c # cs)
           # fieldsOf (dropWhile (\<lambda>c. \<not> reSpace c) (c # cs)))"
  by pat_completeness auto
termination
proof (relation "measure length", goal_cases)
  case 1
  show ?case by simp
next
  case (2 s c cs)
  have "\<not> reSpace c"
    using 2 hd_dropWhile[of reSpace s] by auto
  moreover have "length (dropWhile (\<lambda>c. \<not> reSpace c) cs) \<le> length cs"
    by (rule length_dropWhile_le)
  moreover have "length (dropWhile reSpace s) \<le> length s"
    by (rule length_dropWhile_le)
  ultimately show ?case using 2 by simp
qed

declare fieldsOf.simps [simp del]

section \<open>Path cleaning and joining\<close>

text \<open>
  \<open>filepath.Clean\<close> on Unix, element by element: empty elements and \<open>.\<close> are
  dropped; \<open>..\<close> removes the element before it when that is a real element, is kept
  at the head of a relative path, and is dropped at the root of a rooted path.
  \<open>out\<close> holds the elements written so far.
\<close>

fun cleanElems :: "bool \<Rightarrow> string list \<Rightarrow> string list \<Rightarrow> string list" where
  "cleanElems rooted out [] = out"
| "cleanElems rooted out (e # es) =
    (if e = [] \<or> e = ''.'' then cleanElems rooted out es
     else if e = ''..'' then
       (if out \<noteq> [] \<and> last out \<noteq> ''..'' then cleanElems rooted (butlast out) es
        else if \<not> rooted then cleanElems rooted (out @ [''..'']) es
        else cleanElems rooted out es)
     else cleanElems rooted (out @ [e]) es)"

definition Clean :: "string \<Rightarrow> string" where
  "Clean path =
    (if path = [] then ''.''
     else
       let rooted = (hd path = CHR ''/'');
           out = JoinStr (cleanElems rooted [] (SplitByte path (CHR ''/''))) ''/''
       in if rooted then CHR ''/'' # out else if out = [] then ''.'' else out)"

text \<open>
  \<open>filepath.Join\<close>: leading empty elements are ignored, the rest is joined with
  slashes and cleaned; the result is empty when every element is.
\<close>

definition Join :: "string list \<Rightarrow> string" where
  "Join elem =
    (case dropWhile (\<lambda>e. e = []) elem of [] \<Rightarrow> [] | e # es \<Rightarrow> Clean (JoinStr (e # es) ''/''))"

text \<open>
  The directory \<open>provisionClaims\<close> creates for a claim with the given prefix:
  \<open>filepath.Join(c.cfg.Mountpoint, filepath.Clean("/"+s.prefix))\<close>.
\<close>

definition claimDir :: "string \<Rightarrow> string \<Rightarrow> string" where
  "claimDir mountpoint pfx = Join [mountpoint, Clean (CHR ''/'' # pfx)]"




section \<open>The controller's data\<close>

record Config =
  MinioEndpointsCSV :: string
  S3Provider :: string
  S3Endpoint :: string
  RcloneRemote :: string
  RcloneExtraArgs :: string
  Mountpoint :: string
  AccessKeyFile :: string
  SecretKeyFile :: string
  MounterImage :: string
  HelperImage :: string
  ReadyFile :: string
  PollInterval :: int
  MounterUpdateMode :: string
  MounterPullInterval :: int
  UnmountOnExit :: bool
  AutoCreateBucket :: bool
  AutoCreatePrefix :: bool
  ReadOnly :: bool
  EnableProxy :: bool
  LocalLBEnabled :: bool
  ProxyPort :: string
  ProxyNetwork :: string
  LabelPrefix :: string
  LabelStrict :: bool
  StrictReady :: bool
  Preset :: string
  ImageCleanupEnabled :: bool
  ImageRetentionDays :: int
  ImageKeepRecent :: int

text \<open>
  The controller's mutable fields. Times are nanoseconds since the Unix epoch,
  counters are \<open>int64\<close>. The context, the client handle and the event channel are not
  fields here: the runtime below stands for what they reach.
\<close>

record Controller =
  cfg :: Config
  lastImagePull :: int
  lastImageID :: string
  reconcileTotal :: "64 word"
  reconcileErrors :: "64 word"
  lastMounterRunning :: bool
  lastMountWritable :: bool
  lastReconcileMs :: "64 word"
  healAttemptsTotal :: "64 word"
  healSuccessTotal :: "64 word"
  orphanCleanupTotal :: "64 word"
  lastHealSuccessUnix :: "64 word"
  mounterCreatedTotal :: "64 word"
  selfImageRef :: string

text \<open>\<open>MetricsSnapshot\<close>, in the order of its fields.\<close>

record MetricsSnapshot =
  ReconcileTotal :: "64 word"
  ReconcileErrors :: "64 word"
  MounterRunning :: bool
  MountWritable :: bool
  HealAttemptsTotal :: "64 word"
  HealSuccessTotal :: "64 word"
  LastHealSuccessUnix :: "64 word"
  OrphanCleanupTotal :: "64 word"
  ReconcileDurationMs :: "64 word"
  MounterCreatedTotal :: "64 word"

subsection \<open>What the container runtime exchanges\<close>

text \<open>An entry of \<open>ContainerList\<close>; the labels in the order the map is iterated.\<close>

record Container =
  ctID :: string
  ctState :: string
  ctLabels :: "(string \<times> string) list"

text \<open>
  The result of \<open>ContainerInspect\<close>: the image id, \<open>State.Running\<close> (\<open>None\<close> for a nil
  \<open>State\<close>) and \<open>Config.Image\<close> (\<open>None\<close> for a nil \<open>Config\<close>).
\<close>

record ContainerJSON =
  inspImage :: string
  inspRunning :: "bool option"
  inspConfigImage :: "string option"

record ListOptions =
  loAll :: bool
  loFilters :: "(string \<times> string) list"

text \<open>
  The arguments of \<open>ContainerCreate\<close>: container configuration, host configuration,
  the networks to attach (each with its aliases) and the name.
\<close>

record CreateRequest =
  crImage :: string
  crEnv :: "string list"
  crCmd :: "string list"
  crLabels :: "(string \<times> string) list"
  crPrivileged :: bool
  crPidMode :: string
  crCapAdd :: "string list"
  crNetworkMode :: string
  crRestartPolicy :: string
  crBinds :: "string list"
  crSecurityOpt :: "string list"
  crDevices :: "(string \<times> string \<times> string) list"
  crNetworks :: "(string \<times> string list) list"
  crName :: string

datatype error =
    RuntimeError
  | EmptyImageReference
  | EnsureMounterImage error
  | CreateMounter error
  | StartMounter error

text \<open>
  The world outside the controller: the operating system and the container runtime.
  \<open>'w\<close> is the state of that world. Reads are functions of the state; every call that
  can change the world returns the new state with its result. A call that fails
  returns \<open>None\<close> (or \<open>False\<close>); a call that runs into its deadline fails. Every
  call is taken to return; \<open>ContainerWait\<close> gives what the read of its error channel
  yields (\<open>True\<close> for \<open>nil\<close>).
\<close>

record 'w Runtime =
  osHostname :: "'w \<Rightarrow> string option"
  osGetenv :: "'w \<Rightarrow> string \<Rightarrow> string"
  osReadFile :: "'w \<Rightarrow> string \<Rightarrow> string option"
  timeNow :: "'w \<Rightarrow> int"
  osMkdirAll :: "'w \<Rightarrow> string \<Rightarrow> nat \<Rightarrow> bool \<times> 'w"
  osWriteFile :: "'w \<Rightarrow> string \<Rightarrow> string \<Rightarrow> nat \<Rightarrow> bool \<times> 'w"
  osRemove :: "'w \<Rightarrow> string \<Rightarrow> bool \<times> 'w"
  ContainerList :: "'w \<Rightarrow> ListOptions \<Rightarrow> Container list option \<times> 'w"
  ContainerInspect :: "'w \<Rightarrow> string \<Rightarrow> ContainerJSON option \<times> 'w"
  ContainerCreate :: "'w \<Rightarrow> CreateRequest \<Rightarrow> string option \<times> 'w"
  ContainerStart :: "'w \<Rightarrow> string \<Rightarrow> bool \<times> 'w"
  ContainerRemove :: "'w \<Rightarrow> string \<Rightarrow> bool \<times> 'w"
  ContainerWait :: "'w \<Rightarrow> string \<Rightarrow> bool \<times> 'w"
  ImageInspect :: "'w \<Rightarrow> string \<Rightarrow> string option \<times> 'w"
  ImagePull :: "'w \<Rightarrow> string \<Rightarrow> bool \<times> 'w"

section \<open>Names and the mounter's create-spec\<close>

text \<open>The loop of \<open>sanitizeHostname\<close>: every rune that is not an ASCII letter, digit
  or hyphen becomes one hyphen.\<close>

definition keepRune :: "char \<Rightarrow> bool" where
  "keepRune c \<longleftrightarrow>
     byteIn 97 122 c \<or> byteIn 65 90 c \<or> byteIn 48 57 c \<or> c = CHR ''-''"

function replaceRunes :: "string \<Rightarrow> string" where
  "replaceRunes [] = []"
| "replaceRunes (c # cs) =
    (if keepRune c then c # replaceRunes cs
     else CHR ''-'' # replaceRunes (drop (runeLen (c # cs) - 1) cs))"
  by pat_completeness auto
termination
  by (relation "measure length") auto

definition sanitizeHostname :: "'w Runtime \<Rightarrow> 'w \<Rightarrow> string" where
  "sanitizeHostname rt w =
    (let hn = (case osHostname rt w of
                 None \<Rightarrow> ''unknown''
               | Some h \<Rightarrow> if h = [] then ''unknown'' else h)
     in TrimByte (replaceRunes hn) (CHR ''-''))"

definition mounterName :: "'w Runtime \<Rightarrow> 'w \<Rightarrow> string" where
  "mounterName rt w = ''rclone-mounter-'' @ sanitizeHostname rt w"

definition helperName :: "'w Runtime \<Rightarrow> 'w \<Rightarrow> string \<Rightarrow> string" where
  "helperName rt w role = role @ ''-'' @ sanitizeHostname rt w"

definition localAlias :: "'w Runtime \<Rightarrow> 'w \<Rightarrow> string" where
  "localAlias rt w = ''volume-s3-lb-'' @ sanitizeHostname rt w"

definition selfNetworkMode :: string where
  "selfNetworkMode = ''bridge''"

definition resolveEndpointForMounter :: "'w Runtime \<Rightarrow> 'w \<Rightarrow> Controller \<Rightarrow> string" where
  "resolveEndpointForMounter rt w c =
    (if EnableProxy (cfg c) \<and> LocalLBEnabled (cfg c) \<and> TrimSpace (ProxyNetwork (cfg c)) \<noteq> []
     then ''http://'' @ localAlias rt w @ '':'' @ TrimSpace (ProxyPort (cfg c))
     else S3Endpoint (cfg c))"

definition buildRcloneEnv :: "'w Runtime \<Rightarrow> 'w \<Rightarrow> Controller \<Rightarrow> string list" where
  "buildRcloneEnv rt w c =
    (let access0 = TrimSpace (osGetenv rt w ''VOLS3_ACCESS_KEY'');
         secret0 = TrimSpace (osGetenv rt w ''VOLS3_SECRET_KEY'');
         token = TrimSpace (osGetenv rt w ''VOLS3_SESSION_TOKEN'');
         access = (if access0 = [] then
                     (case osReadFile rt w (AccessKeyFile (cfg c)) of
                        Some b \<Rightarrow> TrimSpace b | None \<Rightarrow> access0)
                   else access0);
         secret = (if secret0 = [] then
                     (case osReadFile rt w (SecretKeyFile (cfg c)) of
                        Some b \<Rightarrow> TrimSpace b | None \<Rightarrow> secret0)
                   else secret0)
     in [''RCLONE_CONFIG_S3_TYPE=s3'',
         ''RCLONE_CONFIG_S3_ACCESS_KEY_ID='' @ access,
         ''RCLONE_CONFIG_S3_SECRET_ACCESS_KEY='' @ secret,
         ''RCLONE_CONFIG_S3_ENDPOINT='' @ resolveEndpointForMounter rt w c]
        @ (if token \<noteq> [] then [''RCLONE_CONFIG_S3_SESSION_TOKEN='' @ token] else [])
        @ (if TrimSpace (S3Provider (cfg c)) \<noteq> []
           then [''RCLONE_CONFIG_S3_PROVIDER='' @ S3Provider (cfg c)] else []))"

text \<open>The values an environment list (entries \<open>NAME=value\<close>) gives a variable.\<close>

definition envValues :: "string list \<Rightarrow> string \<Rightarrow> string list" where
  "envValues env name =
     map (drop (length name + 1)) (filter (prefix (name @ ''='')) env)"

definition buildPresetArgs :: "Controller \<Rightarrow> string list" where
  "buildPresetArgs c =
    (let p = ToLower (TrimSpace (Preset (cfg c))) in
     if p = ''aws'' then [''--s3-region=us-east-1'']
     else if p = ''minio'' \<or> p = ''ceph'' then [''--s3-force-path-style=true'']
     else if p = ''wasabi'' then [''--s3-region=us-east-1'', ''--s3-force-path-style=true'']
     else if p = ''aliyun'' then [''--s3-provider=Alibaba'', ''--s3-force-path-style=true'']
     else [])"

definition parseArgs :: "string \<Rightarrow> string list" where
  "parseArgs s0 =
    (let s = TrimSpace s0 in
     if s = [] then [] else filter (\<lambda>p. p \<noteq> []) (splitSpaces s))"

text \<open>The command \<open>ensureMounter\<close> builds for the mounter container.\<close>

definition mounterCmd :: "Controller \<Rightarrow> string list" where
  "mounterCmd c =
    (let cmd = [''mount'', RcloneRemote (cfg c), Mountpoint (cfg c), ''--allow-other'',
                ''--vfs-cache-mode=writes'', ''--dir-cache-time=12h''];
         cmd = cmd @ buildPresetArgs c;
         cmd = (if ReadOnly (cfg c) then cmd @ [''--read-only''] else cmd);
         cmd = (if TrimSpace (RcloneExtraArgs (cfg c)) \<noteq> []
                then cmd @ parseArgs (RcloneExtraArgs (cfg c)) else cmd)
     in cmd)"

section \<open>Images and helper containers\<close>

definition ensureImagePresent :: "'w Runtime \<Rightarrow> 'w \<Rightarrow> string \<Rightarrow> error option \<times> 'w" where
  "ensureImagePresent rt w img0 =
    (let img = TrimSpace img0 in
     if img = [] then (Some EmptyImageReference, w)
     else
       (case ImageInspect rt w img of
          (Some _, w1) \<Rightarrow> (None, w1)
        | (None, w1) \<Rightarrow>
            (case ImagePull rt w1 img of
               (False, w2) \<Rightarrow> (Some RuntimeError, w2)
             | (True, w2) \<Rightarrow>
                 (case ImageInspect rt w2 img of
                    (None, w3) \<Rightarrow> (Some RuntimeError, w3)
                  | (Some _, w3) \<Rightarrow> (None, w3)))))"

text \<open>
  \<open>Config.Image\<close> of the container with the given id or name, trimmed, when the
  inspection succeeds, \<open>Config\<close> is not nil and the image is not blank.
\<close>

definition inspectSelfImage :: "'w Runtime \<Rightarrow> 'w \<Rightarrow> string \<Rightarrow> string option \<times> 'w" where
  "inspectSelfImage rt w ident =
    (case ContainerInspect rt w ident of
       (Some insp, w1) \<Rightarrow>
         (case inspConfigImage insp of
            Some img0 \<Rightarrow>
              (let img = TrimSpace img0 in if img \<noteq> [] then (Some img, w1) else (None, w1))
          | None \<Rightarrow> (None, w1))
     | (None, w1) \<Rightarrow> (None, w1))"

text \<open>The candidate container id in one line of \<open>/proc/self/cgroup\<close>: the part after
  the second colon (the whole line when it has fewer than two), cut after its last
  slash, trimmed, without the suffix \<open>.scope\<close> and the prefix \<open>docker-\<close>.\<close>

definition cgroupPath :: "string \<Rightarrow> string" where
  "cgroupPath ln =
    (case dropWhile (\<lambda>x. x \<noteq> CHR '':'') ln of
       [] \<Rightarrow> ln
     | _ # b \<Rightarrow> (case dropWhile (\<lambda>x. x \<noteq> CHR '':'') b of [] \<Rightarrow> ln | _ # p \<Rightarrow> p))"

definition TrimSuffix :: "string \<Rightarrow> string \<Rightarrow> string" where
  "TrimSuffix s suf = (if suffix suf s then take (length s - length suf) s else s)"

definition TrimPrefix :: "string \<Rightarrow> string \<Rightarrow> string" where
  "TrimPrefix s pre = (if prefix pre s then drop (length pre) s else s)"

definition cgroupId :: "string \<Rightarrow> string option" where
  "cgroupId ln =
    (let path = cgroupPath ln in
     if CHR ''/'' \<in> set path then
       Some (TrimPrefix (TrimSuffix
               (TrimSpace (rev (takeWhile (\<lambda>x. x \<noteq> CHR ''/'') (rev path)))) ''.scope'') ''docker-'')
     else None)"

fun cgroupScan :: "'w Runtime \<Rightarrow> 'w \<Rightarrow> string list \<Rightarrow> string option \<times> 'w" where
  "cgroupScan rt w [] = (None, w)"
| "cgroupScan rt w (ln # lns) =
    (if ln = [] then cgroupScan rt w lns
     else
       (case cgroupId ln of
          None \<Rightarrow> cgroupScan rt w lns
        | Some ident \<Rightarrow>
            if length ident \<ge> 12 then
              (case inspectSelfImage rt w ident of
                 (Some img, w1) \<Rightarrow> (Some img, w1)
               | (None, w1) \<Rightarrow> cgroupScan rt w1 lns)
            else cgroupScan rt w lns))"

text \<open>Strategy 1 of \<open>helperImageRef\<close>: inspect the container named by the hostname.\<close>

definition selfImageByHostname :: "'w Runtime \<Rightarrow> 'w \<Rightarrow> string option \<times> 'w" where
  "selfImageByHostname rt w =
    (case osHostname rt w of
       Some hn \<Rightarrow> if TrimSpace hn \<noteq> [] then inspectSelfImage rt w hn else (None, w)
     | None \<Rightarrow> (None, w))"

text \<open>Strategy 2: the container ids found in \<open>/proc/self/cgroup\<close>.\<close>

definition selfImageByCgroup :: "'w Runtime \<Rightarrow> 'w \<Rightarrow> string option \<times> 'w" where
  "selfImageByCgroup rt w =
    (case osReadFile rt w ''/proc/self/cgroup'' of
       Some data \<Rightarrow> cgroupScan rt w (SplitByte data (CHR 0x0A))
     | None \<Rightarrow> (None, w))"

definition helperImageRef :: "'w Runtime \<Rightarrow> 'w \<Rightarrow> Controller \<Rightarrow> string \<times> Controller \<times> 'w" where
  "helperImageRef rt w c =
    (if TrimSpace (HelperImage (cfg c)) \<noteq> [] then (HelperImage (cfg c), c, w)
     else if selfImageRef c \<noteq> [] then (selfImageRef c, c, w)
     else
       (case selfImageByHostname rt w of
          (Some img, w1) \<Rightarrow> (img, c\<lparr>selfImageRef := img\<rparr>, w1)
        | (None, w1) \<Rightarrow>
            (case selfImageByCgroup rt w1 of
               (Some img, w2) \<Rightarrow> (img, c\<lparr>selfImageRef := img\<rparr>, w2)
             | (None, w2) \<Rightarrow> (''ghcr.io/swarmnative/volume-s3:latest'', c, w2))))"

text \<open>
  \<open>ensureRShared\<close>: a one-shot privileged container in the host's PID namespace,
  created, started and (deferred) removed again.
\<close>

definition ensureRShared :: "'w Runtime \<Rightarrow> 'w \<Rightarrow> Controller \<Rightarrow> error option \<times> Controller \<times> 'w" where
  "ensureRShared rt w c =
    (let sh = ''nsenter -t 1 -m -- mount --make-rshared '' @ Mountpoint (cfg c)
              @ '' || mount --make-rshared '' @ Mountpoint (cfg c) in
     case helperImageRef rt w c of
       (ref1, c1, w1) \<Rightarrow>
         (case ensureImagePresent rt w1 ref1 of
            (Some e, w2) \<Rightarrow> (Some e, c1, w2)
          | (None, w2) \<Rightarrow>
              (case helperImageRef rt w2 c1 of
                 (ref2, c2, w3) \<Rightarrow>
                   (case ContainerCreate rt w3
                           \<lparr>crImage = ref2, crEnv = [], crCmd = [''sh'', ''-c'', sh],
                            crLabels = [], crPrivileged = True, crPidMode = ''host'',
                            crCapAdd = [], crNetworkMode = [], crRestartPolicy = [],
                            crBinds = [Mountpoint (cfg c) @ '':'' @ Mountpoint (cfg c)],
                            crSecurityOpt = [], crDevices = [], crNetworks = [],
                            crName = helperName rt w3 ''rshared-helper''\<rparr> of
                      (None, w4) \<Rightarrow> (Some RuntimeError, c2, w4)
                    | (Some ident, w4) \<Rightarrow>
                        (case ContainerStart rt w4 ident of
                           (_, w5) \<Rightarrow>
                             (case ContainerRemove rt w5 ident of
                                (_, w6) \<Rightarrow> (None, c2, w6)))))))"

section \<open>The mount probe and the heal\<close>

text \<open>File modes: \<open>0o755\<close> is 493 and \<open>0o644\<close> is 420.\<close>

definition mode755 :: nat where
  "mode755 = 7 * 64 + 5 * 8 + 5"

definition mode644 :: nat where
  "mode644 = 6 * 64 + 4 * 8 + 4"

definition testRW :: "'w Runtime \<Rightarrow> 'w \<Rightarrow> string \<Rightarrow> error option \<times> 'w" where
  "testRW rt w path =
    (case osMkdirAll rt w path mode755 of
       (False, w1) \<Rightarrow> (Some RuntimeError, w1)
     | (True, w1) \<Rightarrow>
         (let f = Join [path, ''.rw-test''] in
          case osWriteFile rt w1 f ''ok'' mode644 of
            (False, w2) \<Rightarrow> (Some RuntimeError, w2)
          | (True, w2) \<Rightarrow> (case osRemove rt w2 f of (_, w3) \<Rightarrow> (None, w3))))"

definition checkAndHealMount ::
  "'w Runtime \<Rightarrow> 'w \<Rightarrow> Controller \<Rightarrow> error option \<times> Controller \<times> 'w" where
  "checkAndHealMount rt w c =
    (case testRW rt w (Mountpoint (cfg c)) of
       (None, w0) \<Rightarrow> (None, c, w0)
     | (Some _, w0) \<Rightarrow>
         (let sh = ''(nsenter -t 1 -m -- fusermount -uz '' @ Mountpoint (cfg c)
                   @ '' || true); (nsenter -t 1 -m -- umount -l '' @ Mountpoint (cfg c)
                   @ '' || true)'' in
          case helperImageRef rt w0 c of
            (ref1, c1, w1) \<Rightarrow>
              (case ensureImagePresent rt w1 ref1 of
                 (Some e, w2) \<Rightarrow> (Some e, c1, w2)
               | (None, w2) \<Rightarrow>
                   (case helperImageRef rt w2 c1 of
                      (ref2, c2, w3) \<Rightarrow>
                        (case ContainerCreate rt w3
                                \<lparr>crImage = ref2, crEnv = [], crCmd = [''sh'', ''-c'', sh],
                                 crLabels = [], crPrivileged = True, crPidMode = ''host'',
                                 crCapAdd = [], crNetworkMode = [], crRestartPolicy = [],
                                 crBinds = [Mountpoint (cfg c) @ '':'' @ Mountpoint (cfg c)],
                                 crSecurityOpt = [], crDevices = [], crNetworks = [],
                                 crName = helperName rt w3 ''umount-helper''\<rparr> of
                           (None, w4) \<Rightarrow> (Some RuntimeError, c2, w4)
                         | (Some ident, w4) \<Rightarrow>
                             (case ContainerStart rt w4 ident of
                                (_, w5) \<Rightarrow>
                                  (case ContainerRemove rt w5 ident of
                                     (_, w6) \<Rightarrow> (None, c2, w6))))))))"

section \<open>The mounter supervisor\<close>

text \<open>\<open>time.Since\<close>: the difference, saturated to the range of \<open>time.Duration\<close>.\<close>

definition Since :: "int \<Rightarrow> int \<Rightarrow> int" where
  "Since now t = max (- (2 ^ 63)) (min (2 ^ 63 - 1) (now - t))"

text \<open>\<open>Duration.Milliseconds\<close>: division by \<open>1e6\<close>, truncated towards zero.\<close>

definition Milliseconds :: "int \<Rightarrow> int" where
  "Milliseconds d = (if d \<ge> 0 then d div 1000000 else - ((- d) div 1000000))"

text \<open>\<open>Time.Unix\<close>: whole seconds since the epoch.\<close>

definition Unix :: "int \<Rightarrow> int" where
  "Unix t = t div 1000000000"

definition cachedImageID :: "'w Runtime \<Rightarrow> 'w \<Rightarrow> Controller \<Rightarrow> string \<times> Controller \<times> 'w" where
  "cachedImageID rt w c =
    (if lastImageID c \<noteq> [] then (lastImageID c, c, w)
     else
       (case ImageInspect rt w (MounterImage (cfg c)) of
          (Some ident, w1) \<Rightarrow> (ident, c\<lparr>lastImageID := ident\<rparr>, w1)
        | (None, w1) \<Rightarrow> ([], c, w1)))"

definition pullMounterImageIfDue ::
  "'w Runtime \<Rightarrow> 'w \<Rightarrow> Controller \<Rightarrow> error option \<times> Controller \<times> 'w" where
  "pullMounterImageIfDue rt w c =
    (if Since (timeNow rt w) (lastImagePull c) < MounterPullInterval (cfg c) then (None, c, w)
     else
       (case ImagePull rt w (MounterImage (cfg c)) of
          (False, w1) \<Rightarrow> (Some RuntimeError, c, w1)
        | (True, w1) \<Rightarrow>
            (let c1 = c\<lparr>lastImagePull := timeNow rt w1\<rparr> in
             case ImageInspect rt w1 (MounterImage (cfg c)) of
               (Some ident, w2) \<Rightarrow> (None, c1\<lparr>lastImageID := ident\<rparr>, w2)
             | (None, w2) \<Rightarrow> (None, c1, w2))))"

definition pullMounterImageIfChanged ::
  "'w Runtime \<Rightarrow> 'w \<Rightarrow> Controller \<Rightarrow> error option \<times> Controller \<times> 'w" where
  "pullMounterImageIfChanged rt w c =
    (case cachedImageID rt w c of
       (current, c1, w1) \<Rightarrow>
         (case ImagePull rt w1 (MounterImage (cfg c)) of
            (False, w2) \<Rightarrow> (Some RuntimeError, c1, w2)
          | (True, w2) \<Rightarrow>
              (let c2 = c1\<lparr>lastImagePull := timeNow rt w2\<rparr> in
               case ImageInspect rt w2 (MounterImage (cfg c)) of
                 (Some ident, w3) \<Rightarrow>
                   if current \<noteq> [] \<and> ident = current then (None, c2, w3)
                   else (None, c2\<lparr>lastImageID := ident\<rparr>, w3)
               | (None, w3) \<Rightarrow> (None, c2, w3))))"

text \<open>The networks a container is attached to: the proxy network when one is
  configured, with the given aliases.\<close>

definition proxyNetworks :: "Controller \<Rightarrow> string list \<Rightarrow> (string \<times> string list) list" where
  "proxyNetworks c aliases =
    (if TrimSpace (ProxyNetwork (cfg c)) \<noteq> [] then [(ProxyNetwork (cfg c), aliases)] else [])"

definition mounterRequest :: "'w Runtime \<Rightarrow> 'w \<Rightarrow> Controller \<Rightarrow> string \<Rightarrow> CreateRequest" where
  "mounterRequest rt w c name =
    \<lparr>crImage = MounterImage (cfg c),
     crEnv = buildRcloneEnv rt w c,
     crCmd = mounterCmd c,
     crLabels = [(''swarmnative.mounter'', ''managed'')],
     crPrivileged = False,
     crPidMode = [],
     crCapAdd = [''SYS_ADMIN''],
     crNetworkMode = selfNetworkMode,
     crRestartPolicy = ''always'',
     crBinds = [''/dev/fuse:/dev/fuse'',
                Mountpoint (cfg c) @ '':'' @ Mountpoint (cfg c) @ '':rshared''],
     crSecurityOpt = [''apparmor=unconfined'', ''seccomp=unconfined''],
     crDevices = [(''/dev/fuse'', ''/dev/fuse'', ''mrw'')],
     crNetworks = proxyNetworks c
        (if EnableProxy (cfg c) \<and> LocalLBEnabled (cfg c) then [localAlias rt w] else []),
     crName = name\<rparr>"

text \<open>The second half of \<open>ensureMounter\<close>: create and start the mounter.\<close>

definition createMounter ::
  "'w Runtime \<Rightarrow> 'w \<Rightarrow> Controller \<Rightarrow> string \<Rightarrow> error option \<times> Controller \<times> 'w" where
  "createMounter rt w c name =
    (let req = mounterRequest rt w c name in
     case ensureImagePresent rt w (MounterImage (cfg c)) of
       (Some e, w1) \<Rightarrow> (Some (EnsureMounterImage e), c, w1)
     | (None, w1) \<Rightarrow>
         (case ContainerCreate rt w1 req of
            (None, w2) \<Rightarrow> (Some (CreateMounter RuntimeError), c, w2)
          | (Some ident, w2) \<Rightarrow>
              (case ContainerStart rt w2 ident of
                 (False, w3) \<Rightarrow> (Some (StartMounter RuntimeError), c, w3)
               | (True, w3) \<Rightarrow>
                   (None, c\<lparr>mounterCreatedTotal := mounterCreatedTotal c + 1\<rparr>, w3))))"

definition ensureMounter :: "'w Runtime \<Rightarrow> 'w \<Rightarrow> Controller \<Rightarrow> error option \<times> Controller \<times> 'w" where
  "ensureMounter rt w c =
    (let name = mounterName rt w in
     case ContainerList rt w \<lparr>loAll = True, loFilters = [(''name'', name)]\<rparr> of
       (None, w1) \<Rightarrow> (Some RuntimeError, c, w1)
     | (Some conts, w1) \<Rightarrow>
         (case cachedImageID rt w1 c of
            (desiredImageID, c1, w2) \<Rightarrow>
              (case conts of
                 [] \<Rightarrow> createMounter rt w2 c1 name
               | ct # _ \<Rightarrow>
                   (case ContainerInspect rt w2 (ctID ct) of
                      (None, w3) \<Rightarrow> createMounter rt w3 c1 name
                    | (Some insp, w3) \<Rightarrow>
                        if desiredImageID \<noteq> [] \<and> inspImage insp \<noteq> desiredImageID then
                          (case ContainerRemove rt w3 (ctID ct) of
                             (_, w4) \<Rightarrow> createMounter rt w4 c1 name)
                        else if inspRunning insp = Some True then (None, c1, w3)
                        else
                          (case ContainerStart rt w3 (ctID ct) of
                             (True, w4) \<Rightarrow> (None, c1, w4)
                           | (False, w4) \<Rightarrow>
                               (case ContainerRemove rt w4 (ctID ct) of
                                  (_, w5) \<Rightarrow> createMounter rt w5 c1 name))))))"

section \<open>Labels and claims\<close>

datatype level = LevelWarn | LevelError

type_synonym logEntry = "level \<times> string \<times> string"

record labelMeta =
  lmV :: string
  lmPref :: bool
  lmPfxName :: string

definition allowedBases :: "string list" where
  "allowedBases = [''s3.enabled'', ''s3.bucket'', ''s3.prefix'', ''s3.class'', ''s3.reclaim'',
                   ''s3.access'', ''s3.args'']"

text \<open>A label key cut at its first slash into prefix and base; no prefix without a slash.\<close>

definition splitKey :: "string \<Rightarrow> string \<times> string" where
  "splitKey k =
    (if CHR ''/'' \<in> set k
     then (takeWhile (\<lambda>x. x \<noteq> CHR ''/'') k, tl (dropWhile (\<lambda>x. x \<noteq> CHR ''/'') k))
     else ([], k))"

text \<open>
  One iteration of the loop of \<open>parseLabels\<close> over a label \<open>k = v\<close>, on the map
  \<open>values\<close> and the log written so far (each entry: level, message, key).
\<close>

definition parseLabel ::
  "Config \<Rightarrow> string \<times> string \<Rightarrow> (string \<rightharpoonup> labelMeta) \<times> logEntry list
     \<Rightarrow> (string \<rightharpoonup> labelMeta) \<times> logEntry list" where
  "parseLabel cf kv st =
    (case kv of (k, v) \<Rightarrow> case st of (vals, logs) \<Rightarrow>
     let pfx = fst (splitKey k); base = snd (splitKey k); specified = TrimSpace (LabelPrefix cf) in
     if base \<notin> set allowedBases then
       (vals, logs @ [(if LabelStrict cf then LevelError else LevelWarn, ''unknown label key'', k)])
     else if specified \<noteq> [] \<and> pfx \<noteq> [] \<and> pfx \<noteq> specified then
       (vals, logs @ [(LevelWarn, ''ignore label from other prefix'', k)])
     else
       (let fromPref = (pfx \<noteq> []) in
        case vals base of
          Some old \<Rightarrow>
            if lmPref old \<and> fromPref then
              (vals, logs @ [(if LabelStrict cf then LevelError else LevelWarn,
                              ''conflicting prefixed labels'', base)])
            else if \<not> lmPref old \<and> fromPref then
              (vals(base \<mapsto> \<lparr>lmV = v, lmPref = True, lmPfxName = pfx\<rparr>),
               logs @ [(LevelWarn, ''prefixed label overrides unprefixed'', base)])
            else (vals, logs)
        | None \<Rightarrow>
            (vals(base \<mapsto> \<lparr>lmV = v, lmPref = fromPref, lmPfxName = pfx\<rparr>), logs)))"

text \<open>
  \<open>parseLabels\<close> on the labels in the order the map is iterated: the resolved map
  and the log.
\<close>

definition parseLabels ::
  "Config \<Rightarrow> (string \<times> string) list \<Rightarrow> (string \<rightharpoonup> string) \<times> logEntry list" where
  "parseLabels cf labels =
    (case fold (parseLabel cf) labels (Map.empty, []) of
       (vals, logs) \<Rightarrow> (\<lambda>k. map_option lmV (vals k), logs))"

record claimSpec =
  csEnabled :: bool
  csBucket :: string
  csPrefix :: string
  csClass :: string
  csReclaim :: string
  csAccess :: string
  csArgs :: string

definition claimOf :: "Config \<Rightarrow> Container \<Rightarrow> claimSpec" where
  "claimOf cf ct =
    (let m = fst (parseLabels cf (ctLabels ct));
         get = (\<lambda>k. case m k of Some v \<Rightarrow> v | None \<Rightarrow> [])
     in \<lparr>csEnabled = (case m ''s3.enabled'' of Some v \<Rightarrow> EqualFoldTrue v | None \<Rightarrow> False),
         csBucket = get ''s3.bucket'',
         csPrefix = (case m ''s3.prefix'' of Some v \<Rightarrow> TrimByte v (CHR ''/'') | None \<Rightarrow> []),
         csClass = get ''s3.class'',
         csReclaim = get ''s3.reclaim'',
         csAccess = get ''s3.access'',
         csArgs = get ''s3.args''\<rparr>)"

definition collectClaimSpecs :: "Config \<Rightarrow> Container list \<Rightarrow> claimSpec list" where
  "collectClaimSpecs cf conts =
    filter csEnabled (map (claimOf cf) (filter (\<lambda>ct. ctLabels ct \<noteq> []) conts))"

text \<open>
  \<open>runRcloneCmd\<close>. Its last step reads the error channel of \<open>ContainerWait\<close>; the
  definition gives the result for a read that yields (an error, or \<open>nil\<close>). With
  the Docker client a wait that ends without error sends nothing on that channel,
  so the read, and with it the pass, does not return: such runs are outside this
  definition.
\<close>

definition runRcloneCmd :: "'w Runtime \<Rightarrow> 'w \<Rightarrow> Controller \<Rightarrow> string list \<Rightarrow> error option \<times> 'w" where
  "runRcloneCmd rt w c cmd =
    (let req = \<lparr>crImage = MounterImage (cfg c), crEnv = buildRcloneEnv rt w c, crCmd = cmd,
                crLabels = [], crPrivileged = False, crPidMode = [], crCapAdd = [],
                crNetworkMode = selfNetworkMode, crRestartPolicy = [], crBinds = [],
                crSecurityOpt = [], crDevices = [], crNetworks = proxyNetworks c [],
                crName = helperName rt w ''rclone-run''\<rparr>
     in case ensureImagePresent rt w (MounterImage (cfg c)) of
          (Some e, w1) \<Rightarrow> (Some e, w1)
        | (None, w1) \<Rightarrow>
            (case ContainerCreate rt w1 req of
               (None, w2) \<Rightarrow> (Some RuntimeError, w2)
             | (Some ident, w2) \<Rightarrow>
                 (case ContainerStart rt w2 ident of
                    (False, w3) \<Rightarrow> (Some RuntimeError, snd (ContainerRemove rt w3 ident))
                  | (True, w3) \<Rightarrow>
                      (case ContainerWait rt w3 ident of
                         (False, w4) \<Rightarrow> (Some RuntimeError, snd (ContainerRemove rt w4 ident))
                       | (True, w4) \<Rightarrow> (None, snd (ContainerRemove rt w4 ident))))))"

definition ensureRemotePaths :: "'w Runtime \<Rightarrow> 'w \<Rightarrow> Controller \<Rightarrow> claimSpec \<Rightarrow> error option \<times> 'w" where
  "ensureRemotePaths rt w c s =
    (if \<not> (AutoCreateBucket (cfg c) \<or> AutoCreatePrefix (cfg c)) then (None, w)
     else if ReadOnly (cfg c) then (None, w)
     else if TrimSpace (csBucket s) = [] then (None, w)
     else
       (let w1 = (if AutoCreateBucket (cfg c)
                  then snd (runRcloneCmd rt w c [''mkdir'', ''S3:'' @ csBucket s]) else w);
            w2 = (if AutoCreatePrefix (cfg c) \<and> TrimSpace (csPrefix s) \<noteq> []
                  then snd (runRcloneCmd rt w1 c
                         [''mkdir'', ''S3:'' @ csBucket s @ ''/'' @ TrimByte (csPrefix s) (CHR ''/'')])
                  else w1)
        in (None, w2)))"

fun provisionEach :: "'w Runtime \<Rightarrow> 'w \<Rightarrow> Controller \<Rightarrow> claimSpec list \<Rightarrow> 'w" where
  "provisionEach rt w c [] = w"
| "provisionEach rt w c (s # ss) =
    (if \<not> csEnabled s \<or> csPrefix s = [] then provisionEach rt w c ss
     else
       (case ensureRemotePaths rt w c s of
          (_, w1) \<Rightarrow>
            (case osMkdirAll rt w1 (claimDir (Mountpoint (cfg c)) (csPrefix s)) mode755 of
               (_, w2) \<Rightarrow> provisionEach rt w2 c ss)))"

definition provisionClaims :: "'w Runtime \<Rightarrow> 'w \<Rightarrow> Controller \<Rightarrow> error option \<times> 'w" where
  "provisionClaims rt w c =
    (case testRW rt w (Mountpoint (cfg c)) of
       (Some e, w1) \<Rightarrow> (Some e, w1)
     | (None, w1) \<Rightarrow>
         (case ContainerList rt w1 \<lparr>loAll = False, loFilters = []\<rparr> of
            (None, w2) \<Rightarrow> (Some RuntimeError, w2)
          | (Some conts, w2) \<Rightarrow>
              (None, provisionEach rt w2 c (collectClaimSpecs (cfg c) conts))))"

section \<open>Status, orphans and the reconcile pass\<close>

definition logStatus :: "'w Runtime \<Rightarrow> 'w \<Rightarrow> Controller \<Rightarrow> Controller \<times> 'w" where
  "logStatus rt w c =
    (case ContainerList rt w \<lparr>loAll = True, loFilters = [(''name'', mounterName rt w)]\<rparr> of
       (r, w1) \<Rightarrow>
         (case (case r of
                  Some (ct # _) \<Rightarrow>
                    (case ContainerInspect rt w1 (ctID ct) of
                       (Some insp, w2) \<Rightarrow>
                         ((case inspRunning insp of Some b \<Rightarrow> b | None \<Rightarrow> False), w2)
                     | (None, w2) \<Rightarrow> (False, w2))
                | _ \<Rightarrow> (False, w1)) of
            (running, w2) \<Rightarrow>
              (case testRW rt w2 (Mountpoint (cfg c)) of
                 (r2, w3) \<Rightarrow>
                   (c\<lparr>lastMounterRunning := running, lastMountWritable := (r2 = None)\<rparr>, w3))))"

fun removeOrphans :: "'w Runtime \<Rightarrow> 'w \<Rightarrow> Container list \<Rightarrow> nat \<Rightarrow> nat \<times> 'w" where
  "removeOrphans rt w [] removed = (removed, w)"
| "removeOrphans rt w (ct # cts) removed =
    (if ctState ct = ''running'' \<or> ctState ct = ''restarting'' then removeOrphans rt w cts removed
     else (case ContainerRemove rt w (ctID ct) of
             (_, w1) \<Rightarrow> removeOrphans rt w1 cts (removed + 1)))"

definition cleanupOrphanedMounters ::
  "'w Runtime \<Rightarrow> 'w \<Rightarrow> Controller \<Rightarrow> error option \<times> Controller \<times> 'w" where
  "cleanupOrphanedMounters rt w c =
    (case ContainerList rt w
            \<lparr>loAll = True,
             loFilters = [(''name'', ''rclone-mounter-''), (''label'', ''swarmnative.mounter=managed'')]\<rparr> of
       (None, w1) \<Rightarrow> (Some RuntimeError, c, w1)
     | (Some conts, w1) \<Rightarrow>
         (case removeOrphans rt w1 conts 0 of
            (removed, w2) \<Rightarrow>
              (None,
               (if removed > 0
                then c\<lparr>orphanCleanupTotal := orphanCleanupTotal c + of_nat removed\<rparr> else c),
               w2)))"

text \<open>The heal block of \<open>reconcile\<close>: the call of \<open>checkAndHealMount\<close> and the
  accounting in its \<open>else\<close> branch.\<close>

definition healStep :: "'w Runtime \<Rightarrow> 'w \<Rightarrow> Controller \<Rightarrow> Controller \<times> 'w" where
  "healStep rt w c =
    (case checkAndHealMount rt w c of
       (Some _, c1, w1) \<Rightarrow> (c1, w1)
     | (None, c1, w1) \<Rightarrow>
         (let c2 = c1\<lparr>healAttemptsTotal := healAttemptsTotal c1 + 1\<rparr> in
          case testRW rt w1 (Mountpoint (cfg c)) of
            (None, w2) \<Rightarrow>
              (c2\<lparr>healSuccessTotal := healSuccessTotal c2 + 1,
                  lastHealSuccessUnix := of_int (Unix (timeNow rt w2))\<rparr>, w2)
          | (Some _, w2) \<Rightarrow> (c2, w2)))"

definition reconcile :: "'w Runtime \<Rightarrow> 'w \<Rightarrow> Controller \<Rightarrow> error option \<times> Controller \<times> 'w" where
  "reconcile rt w c0 =
    (let c = c0\<lparr>reconcileTotal := reconcileTotal c0 + 1\<rparr> in
     case osMkdirAll rt w (Mountpoint (cfg c)) mode755 of
       (_, w1) \<Rightarrow>
         (case ensureRShared rt w1 c of
            (_, c1, w2) \<Rightarrow>
              (case (if MounterUpdateMode (cfg c) = ''periodic'' then pullMounterImageIfDue rt w2 c1
                     else if MounterUpdateMode (cfg c) = ''on_change''
                     then pullMounterImageIfChanged rt w2 c1
                     else (None, c1, w2)) of
                 (_, c2, w3) \<Rightarrow>
                   (case ensureMounter rt w3 c2 of
                      (Some e, c3, w4) \<Rightarrow> (Some e, c3, w4)
                    | (None, c3, w4) \<Rightarrow>
                        (case healStep rt w4 c3 of
                           (c4, w5) \<Rightarrow>
                             (case provisionClaims rt w5 c4 of
                                (_, w6) \<Rightarrow>
                                  (case logStatus rt w6 c4 of
                                     (c5, w7) \<Rightarrow>
                                       (case cleanupOrphanedMounters rt w7 c5 of
                                          (_, c6, w8) \<Rightarrow> (None, c6, w8)))))))))"

text \<open>One turn of the loop of \<open>Run\<close>: the pass, its error count and its duration.\<close>

definition runPass :: "'w Runtime \<Rightarrow> 'w \<Rightarrow> Controller \<Rightarrow> Controller \<times> 'w" where
  "runPass rt w c =
    (let start = timeNow rt w in
     case reconcile rt w c of
       (r, c1, w1) \<Rightarrow>
         (let c2 = (if r \<noteq> None then c1\<lparr>reconcileErrors := reconcileErrors c1 + 1\<rparr> else c1)
          in (c2\<lparr>lastReconcileMs := of_int (Milliseconds (Since (timeNow rt w1) start))\<rparr>, w1)))"

definition Snapshot :: "Controller \<Rightarrow> MetricsSnapshot" where
  "Snapshot c =
    \<lparr>ReconcileTotal = reconcileTotal c,
     ReconcileErrors = reconcileErrors c,
     MounterRunning = lastMounterRunning c,
     MountWritable = lastMountWritable c,
     HealAttemptsTotal = healAttemptsTotal c,
     HealSuccessTotal = healSuccessTotal c,
     LastHealSuccessUnix = lastHealSuccessUnix c,
     OrphanCleanupTotal = orphanCleanupTotal c,
     ReconcileDurationMs = lastReconcileMs c,
     MounterCreatedTotal = mounterCreatedTotal c\<rparr>"

section \<open>Concrete configurations and runtimes\<close>

text \<open>The configuration \<open>main\<close> builds when no variable of the environment is set
  (durations in nanoseconds).\<close>

definition defaultConfig :: Config where
  "defaultConfig =
    \<lparr>MinioEndpointsCSV = ''http://s3.local:9000'', S3Provider = [],
     S3Endpoint = ''http://s3.local:9000'', RcloneRemote = ''S3:bucket'', RcloneExtraArgs = [],
     Mountpoint = ''/mnt/s3'', AccessKeyFile = ''/run/secrets/s3_access_key'',
     SecretKeyFile = ''/run/secrets/s3_secret_key'', MounterImage = ''rclone/rclone:latest'',
     HelperImage = [], ReadyFile = ''.ready'', PollInterval = 15000000000,
     MounterUpdateMode = ''never'', MounterPullInterval = 86400000000000,
     UnmountOnExit = True, AutoCreateBucket = False, AutoCreatePrefix = False,
     ReadOnly = False, EnableProxy = False, LocalLBEnabled = False, ProxyPort = ''8081'',
     ProxyNetwork = [], LabelPrefix = [], LabelStrict = False, StrictReady = False,
     Preset = [], ImageCleanupEnabled = True, ImageRetentionDays = 14, ImageKeepRecent = 2\<rparr>"

text \<open>The controller \<open>New\<close> returns: every field but the configuration is zero (the
  zero \<open>time.Time\<close> is the first of January of year 1).\<close>

definition newController :: "Config \<Rightarrow> Controller" where
  "newController cf =
    \<lparr>cfg = cf, lastImagePull = - 62135596800000000000, lastImageID = [],
     reconcileTotal = 0, reconcileErrors = 0, lastMounterRunning = False,
     lastMountWritable = False, lastReconcileMs = 0, healAttemptsTotal = 0,
     healSuccessTotal = 0, orphanCleanupTotal = 0, lastHealSuccessUnix = 0,
     mounterCreatedTotal = 0, selfImageRef = []\<rparr>"

text \<open>
  A runtime that answers every call the same way and records the requests of
  \<open>ContainerCreate\<close> (the world is the list of them, latest first): the hostname,
  the answer of \<open>ContainerList\<close>, the answer of \<open>ContainerInspect\<close>, and whether
  writing and removing files succeed. Images are present, containers are created
  as \<open>h1\<close> and start, no variable and no file is set.
\<close>

definition fixedRuntime ::
  "string option \<Rightarrow> Container list \<Rightarrow> ContainerJSON option \<Rightarrow> bool \<Rightarrow> bool
     \<Rightarrow> (CreateRequest list) Runtime" where
  "fixedRuntime host conts insp writable removable =
    \<lparr>osHostname = (\<lambda>w. host),
     osGetenv = (\<lambda>w k. []),
     osReadFile = (\<lambda>w f. None),
     timeNow = (\<lambda>w. 1700000000000000000),
     osMkdirAll = (\<lambda>w f m. (True, w)),
     osWriteFile = (\<lambda>w f b m. (writable, w)),
     osRemove = (\<lambda>w f. (removable, w)),
     ContainerList = (\<lambda>w opts. (Some conts, w)),
     ContainerInspect = (\<lambda>w ident. (insp, w)),
     ContainerCreate = (\<lambda>w req. (Some ''h1'', req # w)),
     ContainerStart = (\<lambda>w ident. (True, w)),
     ContainerRemove = (\<lambda>w ident. (True, w)),
     ContainerWait = (\<lambda>w ident. (True, w)),
     ImageInspect = (\<lambda>w ref. (Some ''sha256:A'', w)),
     ImagePull = (\<lambda>w ref. (True, w))\<rparr>"

text \<open>The settled state: the mounter of host \<open>node1\<close> runs on the desired image and
  the mount is writable.\<close>

definition steadyRuntime :: "(CreateRequest list) Runtime" where
  "steadyRuntime =
    fixedRuntime (Some ''node1'')
      [\<lparr>ctID = ''m1'', ctState = ''running'',
        ctLabels = [(''swarmnative.mounter'', ''managed'')]\<rparr>]
      (Some \<lparr>inspImage = ''sha256:A'', inspRunning = Some True,
             inspConfigImage = Some ''rclone/rclone:latest''\<rparr>)
      True True"

text \<open>A runtime without any container, in which no container can be inspected.\<close>

definition emptyRuntime :: "(CreateRequest list) Runtime" where
  "emptyRuntime = fixedRuntime (Some ''node1'') [] None True True"

text \<open>Proxy and local balancer enabled, with a proxy network of one space.\<close>

definition blankNetworkConfig :: Config where
  "blankNetworkConfig =
     defaultConfig\<lparr>EnableProxy := True, LocalLBEnabled := True, ProxyNetwork := '' ''\<rparr>"

text \<open>The empty runtime on a host whose \<open>/proc/self/cgroup\<close> names a container id.\<close>

definition cgroupRuntime :: "(CreateRequest list) Runtime" where
  "cgroupRuntime =
     emptyRuntime\<lparr>osReadFile := (\<lambda>w f.
       if f = ''/proc/self/cgroup''
       then Some (''0::/system.slice/docker-0123456789abcdef.scope'' @ [CHR 0x0A])
       else None)\<rparr>"

text \<open>The steady runtime with a mount that cannot be written, and a runtime that
  refuses to create containers.\<close>

definition stuckRuntime :: "(CreateRequest list) Runtime" where
  "stuckRuntime =
     steadyRuntime\<lparr>osWriteFile := (\<lambda>w f b m. (False, w)),
                   ContainerCreate := (\<lambda>w req. (None, w))\<rparr>"

section \<open>Predicates of the label properties\<close>

text \<open>
  A label is an accepted prefixed key of a base when its key, cut at the first slash,
  has that base and a prefix that is not empty, and the configured label prefix
  (trimmed) is empty or is that prefix.
\<close>

definition acceptedPrefixed :: "Config \<Rightarrow> string \<Rightarrow> string \<times> string \<Rightarrow> bool" where
  "acceptedPrefixed cf base kv \<longleftrightarrow>
     snd (splitKey (fst kv)) = base \<and> fst (splitKey (fst kv)) \<noteq> [] \<and>
     (TrimSpace (LabelPrefix cf) = [] \<or> fst (splitKey (fst kv)) = TrimSpace (LabelPrefix cf))"

text \<open>States of the map \<open>values\<close> at a base: nothing stored from a prefixed key yet,
  and a value stored from a prefixed key.\<close>

definition noPref :: "(string \<rightharpoonup> labelMeta) \<Rightarrow> string \<Rightarrow> bool" where
  "noPref vals base \<longleftrightarrow> (case vals base of None \<Rightarrow> True | Some m \<Rightarrow> \<not> lmPref m)"

definition prefStored :: "(string \<rightharpoonup> labelMeta) \<Rightarrow> string \<Rightarrow> string \<Rightarrow> bool" where
  "prefStored vals base v \<longleftrightarrow>
     (case vals base of None \<Rightarrow> False | Some m \<Rightarrow> lmPref m \<and> lmV m = v)"

definition conflictLevel :: "Config \<Rightarrow> level" where
  "conflictLevel cf = (if LabelStrict cf then LevelError else LevelWarn)"

definition conflictsWellLevelled :: "Config \<Rightarrow> logEntry list \<Rightarrow> bool" where
  "conflictsWellLevelled cf logs \<longleftrightarrow>
     (\<forall>e\<in>set logs. fst (snd e) = ''conflicting prefixed labels'' \<longrightarrow> fst e = conflictLevel cf)"

section \<open>Properties of path cleaning\<close>

subsection \<open>Splitting and joining\<close>








subsection \<open>The element loop of Clean\<close>






subsection \<open>The claim directory\<close>







section \<open>Properties of the mounter's create-spec\<close>

subsection \<open>Splitting the extra arguments\<close>

lemma fieldsOf_dropSpaces: "fieldsOf (dropWhile reSpace s) = fieldsOf s"
proof -
  have "dropWhile reSpace (dropWhile reSpace s) = dropWhile reSpace s"
    by (simp add: dropWhile_idem)
  then show ?thesis
    by (subst (1 2) fieldsOf.simps) simp
qed

lemma fieldsOf_Nil: "fieldsOf [] = []"
  by (subst fieldsOf.simps) simp

lemma fieldsOf_word:
  assumes "s \<noteq> []" and "\<not> reSpace (hd s)"
  shows "fieldsOf s = takeWhile (\<lambda>c. \<not> reSpace c) s # fieldsOf (dropWhile (\<lambda>c. \<not> reSpace c) s)"
proof -
  obtain c cs where s: "s = c # cs" using assms(1) by (cases s) auto
  with assms(2) have "dropWhile reSpace s = c # cs" by simp
  then show ?thesis unfolding s by (subst fieldsOf.simps) simp
qed

lemma splitSpaces_fields: "filter (\<lambda>p. p \<noteq> []) (splitSpaces s) = fieldsOf s"
proof (induction s rule: splitSpaces.induct)
  case (1 s)
  let ?t = "takeWhile (\<lambda>c. \<not> reSpace c) s"
  let ?r = "dropWhile (\<lambda>c. \<not> reSpace c) s"
  show ?case
  proof (cases ?r)
    case Nil
    have sp: "splitSpaces s = [s]" by (subst splitSpaces.simps) (simp only: Nil list.case)
    have ts: "?t = s" using Nil by (metis append_Nil2 takeWhile_dropWhile_id)
    show ?thesis
    proof (cases "s = []")
      case True
      then show ?thesis using sp by (simp add: fieldsOf_Nil)
    next
      case False
      then have "\<not> reSpace (hd s)" using ts by (metis hd_in_set set_takeWhileD)
      from fieldsOf_word[OF False this] show ?thesis
        using sp False Nil ts by (simp add: fieldsOf_Nil)
    qed
  next
    case (Cons c cs)
    then have c: "reSpace c" using hd_dropWhile[of "\<lambda>c. \<not> reSpace c" s] by auto
    have sp: "splitSpaces s = ?t # splitSpaces (dropWhile reSpace ?r)"
      by (subst splitSpaces.simps) (simp only: Cons list.case)
    have ih: "filter (\<lambda>p. p \<noteq> []) (splitSpaces (dropWhile reSpace ?r)) = fieldsOf ?r"
      using "1.IH"[OF Cons] by (simp add: fieldsOf_dropSpaces)
    show ?thesis
    proof (cases "?t = []")
      case True
      then have "?r = s" by (metis append_Nil takeWhile_dropWhile_id)
      then show ?thesis using sp ih True by simp
    next
      case False
      then have ne: "s \<noteq> []" by auto
      have "\<not> reSpace (hd s)" using False by (cases s) (auto split: if_splits)
      from fieldsOf_word[OF ne this] show ?thesis
        using sp ih False by simp
    qed
  qed
qed

lemma parseArgs_fields: "parseArgs s = fieldsOf (TrimSpace s)"
  by (simp add: parseArgs_def Let_def splitSpaces_fields fieldsOf_Nil)

text \<open>
  C9 (as amended). The command of the mounter container that \<open>ensureMounter\<close> creates
  is the six fixed words \<open>mount\<close>, remote, mountpoint, \<open>--allow-other\<close>,
  \<open>--vfs-cache-mode=writes\<close>, \<open>--dir-cache-time=12h\<close>, then the arguments of the
  preset, which is matched after trimming surrounding white space and lowering its
  case (none for any other preset), then \<open>--read-only\<close> iff read-only is configured,
  then the extra arguments: the trimmed string cut at the runs of tab, newline, form
  feed, carriage return and space, in order. Other white space inside the string,
  such as a vertical tab, does not cut it.
\<close>

theorem mounter_command:
  "crCmd (mounterRequest rt w c name) =
     [''mount'', RcloneRemote (cfg c), Mountpoint (cfg c), ''--allow-other'',
      ''--vfs-cache-mode=writes'', ''--dir-cache-time=12h'']
     @ (let p = ToLower (TrimSpace (Preset (cfg c))) in
        if p = ''aws'' then [''--s3-region=us-east-1'']
        else if p = ''minio'' \<or> p = ''ceph'' then [''--s3-force-path-style=true'']
        else if p = ''wasabi'' then [''--s3-region=us-east-1'', ''--s3-force-path-style=true'']
        else if p = ''aliyun'' then [''--s3-provider=Alibaba'', ''--s3-force-path-style=true'']
        else [])
     @ (if ReadOnly (cfg c) then [''--read-only''] else [])
     @ fieldsOf (TrimSpace (RcloneExtraArgs (cfg c)))"
  by (simp add: mounterRequest_def mounterCmd_def buildPresetArgs_def parseArgs_fields
        fieldsOf_Nil Let_def)

theorem mounter_command_witness:
  "crCmd (mounterRequest emptyRuntime []
      (newController (defaultConfig\<lparr>Preset := '' Wasabi'', ReadOnly := True,
         RcloneExtraArgs := ''  --transfers=4   --fast-list ''\<rparr>)) ''rclone-mounter-node1'') =
     [''mount'', ''S3:bucket'', ''/mnt/s3'', ''--allow-other'', ''--vfs-cache-mode=writes'',
      ''--dir-cache-time=12h'', ''--s3-region=us-east-1'', ''--s3-force-path-style=true'',
      ''--read-only'', ''--transfers=4'', ''--fast-list'']"
  by (subst mounter_command) code_simp

text \<open>
  The preset \<open>AWS\<close> is not the word \<open>aws\<close>, yet the command carries the region
  argument of \<open>aws\<close>; and the extra arguments \<open>a\<close>, vertical tab, \<open>b\<close> stay one
  argument although a vertical tab is white space.
\<close>

theorem mounter_command_preset_counterexample:
  "''AWS'' \<noteq> ''aws'' \<and>
   crCmd (mounterRequest emptyRuntime []
      (newController (defaultConfig\<lparr>Preset := ''AWS''\<rparr>)) ''rclone-mounter-node1'') =
     [''mount'', ''S3:bucket'', ''/mnt/s3'', ''--allow-other'', ''--vfs-cache-mode=writes'',
      ''--dir-cache-time=12h'', ''--s3-region=us-east-1''] \<and>
   asciiSpace (CHR 0x0B) \<and>
   crCmd (mounterRequest emptyRuntime []
      (newController (defaultConfig\<lparr>RcloneExtraArgs := [CHR ''a'', CHR 0x0B, CHR ''b'']\<rparr>))
      ''rclone-mounter-node1'') =
     [''mount'', ''S3:bucket'', ''/mnt/s3'', ''--allow-other'', ''--vfs-cache-mode=writes'',
      ''--dir-cache-time=12h'', [CHR ''a'', CHR 0x0B, CHR ''b'']]"
  by code_simp

text \<open>The first pass on the empty runtime creates the mounter with the plain command.\<close>

lemma first_pass_creates_mounter:
  "(case reconcile emptyRuntime [] (newController defaultConfig) of
      (r, c, reqs) \<Rightarrow> (r, mounterCreatedTotal c, map crCmd (filter (\<lambda>q. \<not> crPrivileged q) reqs)))
   = (None, 1, [[''mount'', ''S3:bucket'', ''/mnt/s3'', ''--allow-other'',
                 ''--vfs-cache-mode=writes'', ''--dir-cache-time=12h'']])"
  by code_simp

subsection \<open>The endpoint given to the mounter\<close>

lemma envValues_Cons:
  "envValues (e # env) name =
     (if prefix (name @ ''='') e then drop (length name + 1) e # envValues env name
      else envValues env name)"
  by (simp add: envValues_def)

lemma envValues_Nil: "envValues [] name = []"
  by (simp add: envValues_def)

text \<open>
  C5 (as amended). In the environment of the mounter container the variable
  \<open>RCLONE_CONFIG_S3_ENDPOINT\<close> is set once. Its value is \<open>http://volume-s3-lb-\<close>,
  the sanitized hostname, a colon and the proxy port trimmed of surrounding white
  space, exactly when the proxy and the local balancer are enabled and the proxy
  network is not blank (not empty after trimming white space); in every other
  configuration it is the configured endpoint, unchanged.
\<close>

theorem mounter_endpoint:
  "envValues (crEnv (mounterRequest rt w c name)) ''RCLONE_CONFIG_S3_ENDPOINT'' =
     [if EnableProxy (cfg c) \<and> LocalLBEnabled (cfg c) \<and> TrimSpace (ProxyNetwork (cfg c)) \<noteq> []
      then ''http://volume-s3-lb-'' @ sanitizeHostname rt w @ '':'' @ TrimSpace (ProxyPort (cfg c))
      else S3Endpoint (cfg c)]"
  by (simp add: mounterRequest_def buildRcloneEnv_def Let_def envValues_Cons envValues_Nil
        resolveEndpointForMounter_def localAlias_def)

theorem mounter_endpoint_witness:
  "envValues (crEnv (mounterRequest steadyRuntime []
      (newController (defaultConfig\<lparr>EnableProxy := True, LocalLBEnabled := True,
         ProxyNetwork := ''s3net'', ProxyPort := '' 8081''\<rparr>)) ''m''))
     ''RCLONE_CONFIG_S3_ENDPOINT'' = [''http://volume-s3-lb-node1:8081'']"
  by (subst mounter_endpoint) code_simp

text \<open>
  With proxy and local balancer enabled and a proxy network of one space (not
  empty), the mounter is given the configured endpoint, not the local alias.
\<close>

theorem mounter_endpoint_blank_network_counterexample:
  "EnableProxy blankNetworkConfig \<and> LocalLBEnabled blankNetworkConfig \<and>
   ProxyNetwork blankNetworkConfig \<noteq> [] \<and>
   envValues (crEnv (mounterRequest steadyRuntime [] (newController blankNetworkConfig) ''m''))
     ''RCLONE_CONFIG_S3_ENDPOINT'' = [''http://s3.local:9000'']"
  by code_simp

subsection \<open>The sanitized hostname\<close>

lemma replaceRunes_kept: "c \<in> set (replaceRunes s) \<Longrightarrow> keepRune c"
  by (induction s arbitrary: c rule: replaceRunes.induct)
     (auto simp: keepRune_def split: if_splits)

lemma TrimByte_subset: "set (TrimByte s c) \<subseteq> set s"
  by (auto simp: TrimByte_def dest!: set_dropWhileD)

lemma TrimByte_edges:
  assumes "TrimByte s c \<noteq> []"
  shows "hd (TrimByte s c) \<noteq> c \<and> last (TrimByte s c) \<noteq> c"
proof -
  let ?P = "\<lambda>x. x = c"
  let ?t = "dropWhile ?P s"
  let ?r = "TrimByte s c"
  have r: "?r = rev (dropWhile ?P (rev ?t))" by (simp add: TrimByte_def)
  have ne: "dropWhile ?P (rev ?t) \<noteq> []" using assms r by simp
  have "rev ?t = takeWhile ?P (rev ?t) @ dropWhile ?P (rev ?t)" by simp
  then have "?t = ?r @ rev (takeWhile ?P (rev ?t))"
    unfolding r by (metis rev_append rev_rev_ident)
  then have "hd ?t = hd ?r" using assms by (metis hd_append2)
  moreover have "?t \<noteq> []" using ne by (cases "?t") auto
  then have "hd ?t \<noteq> c" using hd_dropWhile[of ?P s] by simp
  moreover have "last ?r = hd (dropWhile ?P (rev ?t))"
    using ne unfolding r by (simp add: last_rev)
  moreover have "hd (dropWhile ?P (rev ?t)) \<noteq> c"
    using ne hd_dropWhile[of ?P "rev ?t"] by simp
  ultimately show ?thesis by simp
qed

text \<open>Whatever the hostname, the sanitized name holds only ASCII letters, digits and
  hyphens, and neither starts nor ends with a hyphen.\<close>

lemma sanitizeHostname_shape:
  "(\<forall>c\<in>set (sanitizeHostname rt w). keepRune c) \<and>
   (sanitizeHostname rt w \<noteq> [] \<longrightarrow>
      hd (sanitizeHostname rt w) \<noteq> CHR ''-'' \<and> last (sanitizeHostname rt w) \<noteq> CHR ''-'')"
  using TrimByte_subset TrimByte_edges
  by (auto simp: sanitizeHostname_def Let_def dest!: replaceRunes_kept subsetD[OF TrimByte_subset])

text \<open>
  C8 at the hostname \<open>_\<close>: the underscore becomes a hyphen, the hyphen is trimmed,
  and the sanitized name is empty, although a hostname that is empty from the start
  is replaced by \<open>unknown\<close>.
\<close>

theorem sanitizeHostname_empty_result:
  "sanitizeHostname (fixedRuntime (Some ''_'') [] None True True) [] = [] \<and>
   sanitizeHostname (fixedRuntime (Some []) [] None True True) [] = ''unknown''"
  by code_simp

section \<open>Properties of the label parser\<close>

lemma parseLabel_prefStored:
  "prefStored (fst st) base v \<Longrightarrow> prefStored (fst (parseLabel cf kv st)) base v"
  by (cases st; cases kv)
     (auto simp: parseLabel_def prefStored_def Let_def split: option.splits)

lemma parseLabel_noPref:
  "noPref (fst st) base \<Longrightarrow> \<not> acceptedPrefixed cf base kv \<Longrightarrow>
   noPref (fst (parseLabel cf kv st)) base"
  by (cases st; cases kv)
     (auto simp: parseLabel_def noPref_def acceptedPrefixed_def Let_def split: option.splits)

lemma parseLabel_first_prefixed:
  "noPref (fst st) base \<Longrightarrow> acceptedPrefixed cf base kv \<Longrightarrow> base \<in> set allowedBases \<Longrightarrow>
   prefStored (fst (parseLabel cf kv st)) base (snd kv)"
  by (cases st; cases kv)
     (auto simp: parseLabel_def noPref_def prefStored_def acceptedPrefixed_def Let_def
           split: option.splits)

lemma parseLabel_conflict:
  "prefStored (fst st) base v \<Longrightarrow> acceptedPrefixed cf base kv \<Longrightarrow> base \<in> set allowedBases \<Longrightarrow>
   (conflictLevel cf, ''conflicting prefixed labels'', base) \<in> set (snd (parseLabel cf kv st))"
  by (cases st; cases kv)
     (auto simp: parseLabel_def prefStored_def acceptedPrefixed_def conflictLevel_def Let_def
           split: option.splits)

lemma parseLabel_logs_grow: "set (snd st) \<subseteq> set (snd (parseLabel cf kv st))"
  by (cases st; cases kv) (auto simp: parseLabel_def Let_def split: option.splits)

lemma parseLabel_levels:
  "conflictsWellLevelled cf (snd st) \<Longrightarrow> conflictsWellLevelled cf (snd (parseLabel cf kv st))"
  by (cases st; cases kv)
     (auto simp: parseLabel_def conflictsWellLevelled_def conflictLevel_def Let_def
           split: option.splits)

lemma fold_prefStored:
  "prefStored (fst st) base v \<Longrightarrow> prefStored (fst (fold (parseLabel cf) ls st)) base v"
proof (induction ls arbitrary: st)
  case Nil
  then show ?case by simp
next
  case (Cons kv ls)
  from Cons.prems have "prefStored (fst (parseLabel cf kv st)) base v"
    by (rule parseLabel_prefStored)
  then show ?case using Cons.IH by simp
qed

lemma fold_noPref:
  "noPref (fst st) base \<Longrightarrow> \<forall>kv\<in>set ls. \<not> acceptedPrefixed cf base kv \<Longrightarrow>
   noPref (fst (fold (parseLabel cf) ls st)) base"
proof (induction ls arbitrary: st)
  case Nil
  then show ?case by simp
next
  case (Cons kv ls)
  from Cons.prems have "noPref (fst (parseLabel cf kv st)) base"
    by (intro parseLabel_noPref) auto
  then show ?case using Cons.IH Cons.prems by simp
qed

lemma fold_logs_grow: "set (snd st) \<subseteq> set (snd (fold (parseLabel cf) ls st))"
proof (induction ls arbitrary: st)
  case Nil then show ?case by simp
next
  case (Cons kv ls)
  show ?case using parseLabel_logs_grow[of st cf kv] Cons[of "parseLabel cf kv st"] by auto
qed

lemma fold_levels:
  "conflictsWellLevelled cf (snd st) \<Longrightarrow>
   conflictsWellLevelled cf (snd (fold (parseLabel cf) ls st))"
proof (induction ls arbitrary: st)
  case Nil
  then show ?case by simp
next
  case (Cons kv ls)
  from Cons.prems have "conflictsWellLevelled cf (snd (parseLabel cf kv st))"
    by (rule parseLabel_levels)
  then show ?case using Cons.IH by simp
qed

lemma parseLabels_value:
  "prefStored (fst (fold (parseLabel cf) labels (Map.empty, []))) base v \<Longrightarrow>
   fst (parseLabels cf labels) base = Some v"
  by (auto simp: parseLabels_def prefStored_def split: prod.splits option.splits)

lemma parseLabels_logs:
  "snd (parseLabels cf labels) = snd (fold (parseLabel cf) labels (Map.empty, []))"
  by (auto simp: parseLabels_def split: prod.splits)

lemma first_prefixed_wins:
  assumes "base \<in> set allowedBases"
    and "labels = us @ kv # vs"
    and "\<forall>u\<in>set us. \<not> acceptedPrefixed cf base u"
    and "acceptedPrefixed cf base kv"
  shows "prefStored (fst (fold (parseLabel cf) labels (Map.empty, []))) base (snd kv)"
proof -
  let ?s0 = "(Map.empty, []) :: (string \<rightharpoonup> labelMeta) \<times> logEntry list"
  have "noPref (fst ?s0) base" by (simp add: noPref_def)
  then have "noPref (fst (fold (parseLabel cf) us ?s0)) base"
    using assms(3) by (rule fold_noPref)
  then have "prefStored (fst (parseLabel cf kv (fold (parseLabel cf) us ?s0))) base (snd kv)"
    using assms(4,1) by (rule parseLabel_first_prefixed)
  then have "prefStored (fst (fold (parseLabel cf) vs (parseLabel cf kv (fold (parseLabel cf) us ?s0)))) base (snd kv)"
    by (rule fold_prefStored)
  then show ?thesis by (simp add: assms(2))
qed

text \<open>
  C3 (as amended). Let a label map hold an unprefixed key \<open>base = x\<close> and a prefixed
  key \<open>pfx/base = y\<close> of a recognized base, the prefix accepted (it is the configured
  label prefix, or none is configured), and let the map hold no other accepted
  prefixed key of that base. Then \<open>parseLabels\<close> resolves the base to \<open>y\<close>, in
  whatever order the map is iterated.
\<close>

theorem prefixed_label_wins:
  assumes "base \<in> set allowedBases"
    and "(base, x) \<in> set labels"
    and "(pfx @ ''/'' @ base, y) \<in> set labels"
    and "pfx \<noteq> []" and "CHR ''/'' \<notin> set pfx"
    and "TrimSpace (LabelPrefix cf) = [] \<or> pfx = TrimSpace (LabelPrefix cf)"
    and "\<forall>kv\<in>set labels. acceptedPrefixed cf base kv \<longrightarrow> kv = (pfx @ ''/'' @ base, y)"
  shows "\<forall>ls. set ls = set labels \<longrightarrow> fst (parseLabels cf ls) base = Some y"
proof (intro allI impI)
  fix ls :: "(string \<times> string) list"
  assume eq: "set ls = set labels"
  let ?kv = "(pfx @ ''/'' @ base, y)"
  have "takeWhile (\<lambda>x. x \<noteq> CHR ''/'') (pfx @ CHR ''/'' # base) = pfx"
    using assms(5) by (subst takeWhile_append2) auto
  moreover have "dropWhile (\<lambda>x. x \<noteq> CHR ''/'') (pfx @ CHR ''/'' # base) = CHR ''/'' # base"
    using assms(5) by (subst dropWhile_append2) auto
  ultimately have sk: "splitKey (pfx @ CHR ''/'' # base) = (pfx, base)"
    by (simp add: splitKey_def)
  have acc: "acceptedPrefixed cf base ?kv"
    using assms(4,6) by (simp add: acceptedPrefixed_def sk)
  have "?kv \<in> set ls" using assms(3) eq by simp
  then obtain us vs where d: "ls = us @ ?kv # vs" and nin: "?kv \<notin> set us"
    by (auto dest!: split_list_first)
  have "\<forall>u\<in>set us. \<not> acceptedPrefixed cf base u"
    using assms(7) eq d nin by auto
  from first_prefixed_wins[OF assms(1) d this acc]
  show "fst (parseLabels cf ls) base = Some y"
    by (auto dest: parseLabels_value)
qed

theorem prefixed_label_wins_witness:
  "fst (parseLabels (defaultConfig\<lparr>LabelPrefix := ''org''\<rparr>)
          [(''org/s3.enabled'', ''true''), (''s3.enabled'', ''false'')]) ''s3.enabled'' = Some ''true'' \<and>
   fst (parseLabels (defaultConfig\<lparr>LabelPrefix := ''org''\<rparr>)
          [(''s3.enabled'', ''false''), (''org/s3.enabled'', ''true'')]) ''s3.enabled'' = Some ''true''"
proof -
  let ?cf = "defaultConfig\<lparr>LabelPrefix := ''org''\<rparr>"
  let ?labels = "[(''org/s3.enabled'', ''true''), (''s3.enabled'', ''false'')]"
  have 1: "''s3.enabled'' \<in> set allowedBases" by (simp add: allowedBases_def)
  have 2: "(''s3.enabled'', ''false'') \<in> set ?labels" by simp
  have 3: "(''org'' @ ''/'' @ ''s3.enabled'', ''true'') \<in> set ?labels" by simp
  have 4: "''org'' \<noteq> []" by simp
  have 5: "CHR ''/'' \<notin> set ''org''" by simp
  have 6: "TrimSpace (LabelPrefix ?cf) = [] \<or> ''org'' = TrimSpace (LabelPrefix ?cf)"
    by code_simp
  have 7: "\<forall>kv\<in>set ?labels. acceptedPrefixed ?cf ''s3.enabled'' kv
             \<longrightarrow> kv = (''org'' @ ''/'' @ ''s3.enabled'', ''true'')"
    by code_simp
  note w = prefixed_label_wins[OF 1 2 3 4 5 6 7, rule_format]
  have "fst (parseLabels ?cf ?labels) ''s3.enabled'' = Some ''true''"
    by (rule w) simp
  moreover have "fst (parseLabels ?cf [(''s3.enabled'', ''false''), (''org/s3.enabled'', ''true'')])
                   ''s3.enabled'' = Some ''true''"
    by (rule w) auto
  ultimately show ?thesis by simp
qed

text \<open>
  Without a configured label prefix, a map with \<open>s3.bucket = X\<close>, \<open>a/s3.bucket = Y\<close>
  and \<open>b/s3.bucket = Z\<close> resolves to \<open>Z\<close> when \<open>b/s3.bucket\<close> is iterated first and
  to \<open>Y\<close> when \<open>a/s3.bucket\<close> is.
\<close>

theorem prefixed_label_order_counterexample:
  "fst (parseLabels defaultConfig
          [(''b/s3.bucket'', ''Z''), (''a/s3.bucket'', ''Y''), (''s3.bucket'', ''X'')]) ''s3.bucket''
     = Some ''Z'' \<and>
   fst (parseLabels defaultConfig
          [(''a/s3.bucket'', ''Y''), (''b/s3.bucket'', ''Z''), (''s3.bucket'', ''X'')]) ''s3.bucket''
     = Some ''Y''"
  by code_simp

lemma conflict_logged_first_kept:
  assumes "base \<in> set allowedBases"
    and "filter (acceptedPrefixed cf base) labels = (k1, v1) # (k2, v2) # others"
  shows "fst (parseLabels cf labels) base = Some v1 \<and>
         (conflictLevel cf, ''conflicting prefixed labels'', base) \<in> set (snd (parseLabels cf labels)) \<and>
         (\<forall>e\<in>set (snd (parseLabels cf labels)).
             fst (snd e) = ''conflicting prefixed labels'' \<longrightarrow> fst e = conflictLevel cf)"
proof -
  let ?s0 = "(Map.empty, []) :: (string \<rightharpoonup> labelMeta) \<times> logEntry list"
  from filter_eq_ConsD[OF assms(2)] obtain us vs where d1: "labels = us @ (k1, v1) # vs"
    and n1: "\<forall>u\<in>set us. \<not> acceptedPrefixed cf base u"
    and a1: "acceptedPrefixed cf base (k1, v1)"
    and f2: "(k2, v2) # others = filter (acceptedPrefixed cf base) vs"
    by blast
  from filter_eq_ConsD[OF f2[symmetric]] obtain us2 vs2 where d2: "vs = us2 @ (k2, v2) # vs2"
    and a2: "acceptedPrefixed cf base (k2, v2)"
    by blast
  have st: "prefStored (fst (fold (parseLabel cf) labels ?s0)) base v1"
    using first_prefixed_wins[OF assms(1) d1 n1 a1] by simp
  let ?s1 = "fold (parseLabel cf) (us @ (k1, v1) # us2) ?s0"
  have "prefStored (fst ?s1) base v1"
    using first_prefixed_wins[OF assms(1) _ n1 a1, of "us @ (k1, v1) # us2" us2] by simp
  then have "(conflictLevel cf, ''conflicting prefixed labels'', base)
               \<in> set (snd (parseLabel cf (k2, v2) ?s1))"
    using a2 assms(1) by (rule parseLabel_conflict)
  then have lg: "(conflictLevel cf, ''conflicting prefixed labels'', base)
               \<in> set (snd (fold (parseLabel cf) labels ?s0))"
    using fold_logs_grow[of "parseLabel cf (k2, v2) ?s1" cf vs2] by (auto simp: d1 d2)
  have "conflictsWellLevelled cf (snd ?s0)" by (simp add: conflictsWellLevelled_def)
  then have "conflictsWellLevelled cf (snd (fold (parseLabel cf) labels ?s0))"
    by (rule fold_levels)
  then show ?thesis
    using st lg by (simp add: parseLabels_value parseLabels_logs conflictsWellLevelled_def)
qed

text \<open>
  C4 (as amended). When the labels in iteration order hold at least two accepted
  prefixed keys of a recognized base, \<open>parseLabels\<close> logs the conflict for that base
  as a warning iff \<open>label_strict\<close> is false and as an error iff it is true, and the
  resolved map keeps the value of the first of them to be iterated; the later ones
  are dropped.
\<close>

theorem conflicting_prefixed_labels:
  assumes "base \<in> set allowedBases"
    and "filter (acceptedPrefixed cf base) labels = (k1, v1) # (k2, v2) # others"
  shows "fst (parseLabels cf labels) base = Some v1 \<and>
         (if LabelStrict cf then LevelError else LevelWarn, ''conflicting prefixed labels'', base)
           \<in> set (snd (parseLabels cf labels)) \<and>
         (if LabelStrict cf then LevelWarn else LevelError, ''conflicting prefixed labels'', base)
           \<notin> set (snd (parseLabels cf labels))"
proof -
  note h = conflict_logged_first_kept[OF assms]
  have "(if LabelStrict cf then LevelWarn else LevelError, ''conflicting prefixed labels'', base)
          \<notin> set (snd (parseLabels cf labels))"
  proof
    assume "(if LabelStrict cf then LevelWarn else LevelError, ''conflicting prefixed labels'', base)
              \<in> set (snd (parseLabels cf labels))"
    with h have "(if LabelStrict cf then LevelWarn else LevelError) = conflictLevel cf"
      by fastforce
    then show False by (simp add: conflictLevel_def split: if_splits)
  qed
  with h show ?thesis by (simp add: conflictLevel_def)
qed

theorem conflicting_prefixed_labels_witness:
  "fst (parseLabels defaultConfig [(''a/s3.bucket'', ''Y''), (''b/s3.bucket'', ''Z'')]) ''s3.bucket''
     = Some ''Y'' \<and>
   (LevelWarn, ''conflicting prefixed labels'', ''s3.bucket'')
     \<in> set (snd (parseLabels defaultConfig [(''a/s3.bucket'', ''Y''), (''b/s3.bucket'', ''Z'')])) \<and>
   (LevelError, ''conflicting prefixed labels'', ''s3.bucket'')
     \<in> set (snd (parseLabels (defaultConfig\<lparr>LabelStrict := True\<rparr>)
                   [(''a/s3.bucket'', ''Y''), (''b/s3.bucket'', ''Z'')]))"
proof -
  let ?labels = "[(''a/s3.bucket'', ''Y''), (''b/s3.bucket'', ''Z'')]"
  let ?strict = "defaultConfig\<lparr>LabelStrict := True\<rparr>"
  have 1: "''s3.bucket'' \<in> set allowedBases" by (simp add: allowedBases_def)
  have 2: "filter (acceptedPrefixed defaultConfig ''s3.bucket'') ?labels
             = (''a/s3.bucket'', ''Y'') # (''b/s3.bucket'', ''Z'') # []"
    by code_simp
  have 3: "filter (acceptedPrefixed ?strict ''s3.bucket'') ?labels
             = (''a/s3.bucket'', ''Y'') # (''b/s3.bucket'', ''Z'') # []"
    by code_simp
  have 4: "\<not> LabelStrict defaultConfig" by (simp add: defaultConfig_def)
  have 5: "LabelStrict ?strict" by simp
  from conflicting_prefixed_labels[OF 1 2] conflicting_prefixed_labels[OF 1 3] 4 5
  show ?thesis by simp
qed

text \<open>
  Of two conflicting prefixed values the first to be iterated stays in the
  resolved map, with and without \<open>label_strict\<close>.
\<close>

theorem conflicting_prefixed_labels_counterexample:
  "fst (parseLabels defaultConfig [(''a/s3.bucket'', ''Y''), (''b/s3.bucket'', ''Z'')]) ''s3.bucket''
     = Some ''Y'' \<and>
   fst (parseLabels (defaultConfig\<lparr>LabelStrict := True\<rparr>)
          [(''a/s3.bucket'', ''Y''), (''b/s3.bucket'', ''Z'')]) ''s3.bucket'' = Some ''Y''"
  by code_simp

text \<open>The tests of the repository.\<close>

lemma TestParseLabels_NoPrefix:
  "(let m = fst (parseLabels defaultConfig
                  [(''s3.enabled'', ''true''), (''s3.bucket'', ''b''), (''foo'', ''bar'')])
    in (m ''s3.enabled'', m ''s3.bucket'', m ''foo'')) = (Some ''true'', Some ''b'', None)"
  by code_simp

section \<open>Properties of the probe, the heal and the helper image\<close>

text \<open>
  C7 (as amended). With a configuration that is not read-only, the probe of the
  mountpoint creates the directory with mode 0755, writes the sentinel \<open>.rw-test\<close>
  in it and then removes the sentinel; it succeeds iff creating the directory and
  writing the sentinel succeed, whether or not the removal does, and after a
  success the removal has been issued.
\<close>

theorem testRW_success:
  assumes "\<not> ReadOnly (cfg c)"
  shows "(fst (testRW rt w (Mountpoint (cfg c))) = None) =
           (fst (osMkdirAll rt w (Mountpoint (cfg c)) mode755) \<and>
            fst (osWriteFile rt (snd (osMkdirAll rt w (Mountpoint (cfg c)) mode755))
                   (Join [Mountpoint (cfg c), ''.rw-test'']) ''ok'' mode644)) \<and>
         (fst (testRW rt w (Mountpoint (cfg c))) = None \<longrightarrow>
            snd (testRW rt w (Mountpoint (cfg c))) =
              snd (osRemove rt
                     (snd (osWriteFile rt (snd (osMkdirAll rt w (Mountpoint (cfg c)) mode755))
                             (Join [Mountpoint (cfg c), ''.rw-test'']) ''ok'' mode644))
                     (Join [Mountpoint (cfg c), ''.rw-test''])))"
  by (simp add: testRW_def Let_def split: prod.splits bool.splits)

theorem testRW_success_witness:
  "fst (testRW steadyRuntime [] ''/mnt/s3'') = None \<and>
   fst (testRW stuckRuntime [] ''/mnt/s3'') \<noteq> None"
proof -
  have a: "\<not> ReadOnly (cfg (newController defaultConfig))"
    by (simp add: newController_def defaultConfig_def)
  have m: "Mountpoint (cfg (newController defaultConfig)) = ''/mnt/s3''"
    by (simp add: newController_def defaultConfig_def)
  have "fst (osMkdirAll steadyRuntime [] ''/mnt/s3'' mode755) \<and>
        fst (osWriteFile steadyRuntime (snd (osMkdirAll steadyRuntime [] ''/mnt/s3'' mode755))
               (Join [''/mnt/s3'', ''.rw-test'']) ''ok'' mode644)"
    by code_simp
  moreover have "\<not> fst (osWriteFile stuckRuntime (snd (osMkdirAll stuckRuntime [] ''/mnt/s3'' mode755))
               (Join [''/mnt/s3'', ''.rw-test'']) ''ok'' mode644)"
    by code_simp
  ultimately show ?thesis
    using testRW_success[OF a, of steadyRuntime "[]"] testRW_success[OF a, of stuckRuntime "[]"]
    unfolding m by simp
qed

text \<open>
  On a file system where the sentinel can be written but not removed, the probe
  succeeds.
\<close>

theorem testRW_unlink_fails_counterexample:
  "fst (testRW (fixedRuntime (Some ''node1'') [] None True False) [] ''/mnt/s3'') = None \<and>
   \<not> fst (osRemove (fixedRuntime (Some ''node1'') [] None True False) []
            (Join [''/mnt/s3'', ''.rw-test'']))"
  by code_simp

text \<open>
  C2 on the steady runtime: the probe of the mountpoint succeeds, so no heal is
  invoked, and the pass counts a heal attempt all the same.
\<close>

theorem heal_attempts_counted_without_heal:
  "fst (testRW steadyRuntime [] (Mountpoint defaultConfig)) = None \<and>
   healAttemptsTotal (newController defaultConfig) = 0 \<and>
   healAttemptsTotal (fst (snd (reconcile steadyRuntime [] (newController defaultConfig)))) = 1"
  by code_simp

text \<open>The same, for every runtime: a heal step whose first probe succeeds counts an
  attempt.\<close>

lemma healStep_counts_noop:
  "fst (testRW rt w (Mountpoint (cfg c))) = None \<Longrightarrow>
   healAttemptsTotal (fst (healStep rt w c)) = healAttemptsTotal c + 1"
  by (auto simp: healStep_def checkAndHealMount_def Let_def split: prod.splits option.splits)

text \<open>And a heal that is invoked but whose helper cannot be created is not counted.\<close>

lemma heal_attempt_uncounted_when_helper_fails:
  "fst (testRW stuckRuntime [] (Mountpoint defaultConfig)) \<noteq> None \<and>
   healAttemptsTotal (fst (snd (reconcile stuckRuntime [] (newController defaultConfig)))) = 0"
  by code_simp

text \<open>
  C6 on the steady runtime: two passes in succession. The second pass raises
  \<open>heal_attempts_total\<close> and \<open>heal_success_total\<close> from 1 to 2; it leaves
  \<open>orphan_cleanup_total\<close> and \<open>mounter_created_total\<close> at 0.
\<close>

theorem second_pass_changes_heal_counters:
  "(case reconcile steadyRuntime [] (newController defaultConfig) of
      (r1, c1, w1) \<Rightarrow>
        (case reconcile steadyRuntime w1 c1 of
           (r2, c2, w2) \<Rightarrow>
             (HealAttemptsTotal (Snapshot c1), HealAttemptsTotal (Snapshot c2),
              HealSuccessTotal (Snapshot c1), HealSuccessTotal (Snapshot c2),
              OrphanCleanupTotal (Snapshot c1), OrphanCleanupTotal (Snapshot c2),
              MounterCreatedTotal (Snapshot c1), MounterCreatedTotal (Snapshot c2))))
   = (1, 2, 1, 2, 0, 0, 0, 0)"
  by code_simp

text \<open>
  C10. \<open>helperImageRef\<close> returns the configured helper image whenever that is not
  blank. When it is blank, no reference is cached from an earlier discovery, and
  both discoveries fail (inspecting the container named by the hostname, then the
  container ids of \<open>/proc/self/cgroup\<close>), it returns the fixed reference
  \<open>ghcr.io/swarmnative/volume-s3:latest\<close>.
\<close>

theorem helperImageRef_choice:
  "(TrimSpace (HelperImage (cfg c)) \<noteq> [] \<longrightarrow> fst (helperImageRef rt w c) = HelperImage (cfg c)) \<and>
   (TrimSpace (HelperImage (cfg c)) = [] \<and> selfImageRef c = [] \<and>
    fst (selfImageByHostname rt w) = None \<and>
    fst (selfImageByCgroup rt (snd (selfImageByHostname rt w))) = None
      \<longrightarrow> fst (helperImageRef rt w c) = ''ghcr.io/swarmnative/volume-s3:latest'')"
  by (auto simp: helperImageRef_def split: prod.splits option.splits)

theorem helperImageRef_choice_witness:
  "fst (helperImageRef emptyRuntime [] (newController (defaultConfig\<lparr>HelperImage := ''busybox:1.36 ''\<rparr>)))
     = ''busybox:1.36 '' \<and>
   fst (helperImageRef cgroupRuntime [] (newController defaultConfig))
     = ''ghcr.io/swarmnative/volume-s3:latest''"
proof -
  let ?c1 = "newController (defaultConfig\<lparr>HelperImage := ''busybox:1.36 ''\<rparr>)"
  let ?c2 = "newController defaultConfig"
  have a: "TrimSpace (HelperImage (cfg ?c1)) \<noteq> []" by code_simp
  have b: "TrimSpace (HelperImage (cfg ?c2)) = [] \<and> selfImageRef ?c2 = [] \<and>
    fst (selfImageByHostname cgroupRuntime []) = None \<and>
    fst (selfImageByCgroup cgroupRuntime (snd (selfImageByHostname cgroupRuntime []))) = None"
    by code_simp
  from helperImageRef_choice[of ?c1 emptyRuntime "[]"] a
  have "fst (helperImageRef emptyRuntime [] ?c1) = HelperImage (cfg ?c1)" by blast
  moreover from helperImageRef_choice[of ?c2 cgroupRuntime "[]"] b
  have "fst (helperImageRef cgroupRuntime [] ?c2) = ''ghcr.io/swarmnative/volume-s3:latest''"
    by blast
  ultimately show ?thesis by (simp add: newController_def defaultConfig_def)
qed

text \<open>With the default configuration on a host where the discoveries fail, the pass
  asks for a privileged container of that image.\<close>

lemma privileged_helper_runs_fallback_image:
  "list_ex (\<lambda>req. crPrivileged req \<and> crImage req = ''ghcr.io/swarmnative/volume-s3:latest'')
     (snd (snd (reconcile emptyRuntime [] (newController defaultConfig))))"
  by code_simp

end
